theory Spec2Isabelle
  imports Main "HOL-Library.Word" "HOL-Library.Sublist"
begin

unbundle bit_operations_syntax

section \<open>PPODtottl: spreadsheet tables to RDF triples\<close>

text \<open>
  A shallow embedding of \<^verbatim>\<open>PPODtottl.py\<close>: the identifier hash \<^verbatim>\<open>makeid\<close>, the
  triple emitter \<^verbatim>\<open>addtriple\<close>, the predicate tables, and the ingestion loops of
  \<^verbatim>\<open>creategraph\<close>.

  Conventions of the model.
  \<^item> A Python \<^verbatim>\<open>str\<close> is the list of the bytes of its UTF-8 encoding (a \<open>string\<close>,
    whose characters are bytes). Concatenation, equality, the test for the empty string,
    splitting at a comma and the substring test agree on code points and on UTF-8 bytes;
    \<^verbatim>\<open>strip\<close> is written over the UTF-8 encodings of Python's whitespace characters.
  \<^item> Cells of the tables are strings, as the tables are handed over.
  \<^item> The RDF graph is the list of the triples passed to \<^verbatim>\<open>g.add\<close>, in order; the graph
    proper is the set of that list. Lines written by \<^verbatim>\<open>print\<close> are collected in order.
  \<^item> A raised exception is the left summand of the result, with the state reached when it
    was raised. Nothing in the program catches an exception except the
    \<^verbatim>\<open>except KeyError\<close> of the vocabulary branch of \<^verbatim>\<open>addtriple\<close>.
\<close>

subsection \<open>Strings\<close>

text \<open>\<^verbatim>\<open>s.encode("utf-8")\<close>: the bytes of the string.\<close>

definition encode_utf8 :: "string \<Rightarrow> 8 word list" where
  "encode_utf8 s = map of_char s"

text \<open>\<^verbatim>\<open>s.split(',')\<close>: the pieces between commas; never the empty list.\<close>

fun split_comma :: "string \<Rightarrow> string list" where
  "split_comma [] = [[]]"
| "split_comma (c # cs) =
     (if c = CHR '','' then [] # split_comma cs
      else (c # hd (split_comma cs)) # tl (split_comma cs))"

text \<open>\<^verbatim>\<open>sep.join(xs)\<close>.\<close>

fun join :: "string \<Rightarrow> string list \<Rightarrow> string" where
  "join sep [] = []"
| "join sep [x] = x"
| "join sep (x # y # ys) = x @ sep @ join sep (y # ys)"

text \<open>\<^verbatim>\<open>sub in s\<close> for strings: \<open>sub\<close> occurs in \<open>s\<close> as a contiguous piece.\<close>

fun contains :: "string \<Rightarrow> string \<Rightarrow> bool" where
  "contains sub [] = (sub = [])"
| "contains sub (c # cs) = (prefix sub (c # cs) \<or> contains sub cs)"

text \<open>
  The characters \<^verbatim>\<open>str.strip()\<close> removes are those for which \<^verbatim>\<open>str.isspace()\<close> holds:
  U+0009..U+000D, U+001C..U+0020, U+0085, U+00A0, U+1680, U+2000..U+200A, U+2028, U+2029,
  U+202F, U+205F and U+3000, here in UTF-8.
\<close>

definition whitespace :: "string list" where
  "whitespace =
    [[CHR 0x09], [CHR 0x0A], [CHR 0x0B], [CHR 0x0C], [CHR 0x0D],
     [CHR 0x1C], [CHR 0x1D], [CHR 0x1E], [CHR 0x1F], [CHR 0x20],
     [CHR 0xC2, CHR 0x85], [CHR 0xC2, CHR 0xA0], [CHR 0xE1, CHR 0x9A, CHR 0x80],
     [CHR 0xE2, CHR 0x80, CHR 0x80], [CHR 0xE2, CHR 0x80, CHR 0x81],
     [CHR 0xE2, CHR 0x80, CHR 0x82], [CHR 0xE2, CHR 0x80, CHR 0x83],
     [CHR 0xE2, CHR 0x80, CHR 0x84], [CHR 0xE2, CHR 0x80, CHR 0x85],
     [CHR 0xE2, CHR 0x80, CHR 0x86], [CHR 0xE2, CHR 0x80, CHR 0x87],
     [CHR 0xE2, CHR 0x80, CHR 0x88], [CHR 0xE2, CHR 0x80, CHR 0x89],
     [CHR 0xE2, CHR 0x80, CHR 0x8A], [CHR 0xE2, CHR 0x80, CHR 0xA8],
     [CHR 0xE2, CHR 0x80, CHR 0xA9], [CHR 0xE2, CHR 0x80, CHR 0xAF],
     [CHR 0xE2, CHR 0x81, CHR 0x9F], [CHR 0xE3, CHR 0x80, CHR 0x80]]"

text \<open>One leading whitespace character removed, if there is one.\<close>

fun strip_one :: "string list \<Rightarrow> string \<Rightarrow> string option" where
  "strip_one [] s = None"
| "strip_one (w # ws) s =
     (if w \<noteq> [] \<and> prefix w s then Some (drop (length w) s) else strip_one ws s)"

lemma strip_one_shorter: "strip_one ws s = Some r \<Longrightarrow> length r < length s"
  by (induction ws) (auto split: if_splits simp: prefix_def)

function strip_left :: "string list \<Rightarrow> string \<Rightarrow> string" where
  "strip_left ws s = (case strip_one ws s of None \<Rightarrow> s | Some r \<Rightarrow> strip_left ws r)"
  by pat_completeness auto
termination
  by (relation "measure (\<lambda>(ws, s). length s)") (auto dest: strip_one_shorter)

declare strip_left.simps [simp del]

definition lstrip :: "string \<Rightarrow> string" where
  "lstrip s = strip_left whitespace s"

definition rstrip :: "string \<Rightarrow> string" where
  "rstrip s = rev (strip_left (map rev whitespace) (rev s))"

definition strip :: "string \<Rightarrow> string" where
  "strip s = rstrip (lstrip s)"

text \<open>\<^verbatim>\<open>s[i:j]\<close> for \<open>0 \<le> i \<le> j\<close>.\<close>

definition slice :: "nat \<Rightarrow> nat \<Rightarrow> string \<Rightarrow> string" where
  "slice i j s = take (j - i) (drop i s)"

text \<open>\<^verbatim>\<open>hex(n)\<close> for \<open>n \<ge> 0\<close>: the prefix \<^verbatim>\<open>0x\<close> and the lowercase digits, no padding.\<close>

definition hexdigit :: "nat \<Rightarrow> char" where
  "hexdigit d = ''0123456789abcdef'' ! d"

function hex_digits :: "nat \<Rightarrow> string" where
  "hex_digits n = (if n < 16 then [hexdigit n] else hex_digits (n div 16) @ [hexdigit (n mod 16)])"
  by pat_completeness auto
termination
  by (relation "measure (\<lambda>n. n)") auto

declare hex_digits.simps [simp del]

definition hex :: "nat \<Rightarrow> string" where
  "hex n = ''0x'' @ hex_digits n"

subsection \<open>The checksum and the identifier hash\<close>

text \<open>
  \<^verbatim>\<open>binascii.crc32\<close> is the CRC-32 of ISO 3309 and zlib: reflected polynomial
  \<open>0xEDB88320\<close>, register preset to all ones, result complemented; eight shifts per byte.
\<close>

definition crc_shift :: "32 word \<Rightarrow> 32 word" where
  "crc_shift c = (if bit c 0 then drop_bit 1 c XOR 0xEDB88320 else drop_bit 1 c)"

definition crc_update :: "32 word \<Rightarrow> 8 word \<Rightarrow> 32 word" where
  "crc_update c b =
     crc_shift (crc_shift (crc_shift (crc_shift (crc_shift (crc_shift (crc_shift (crc_shift
       (c XOR ucast b))))))))"

definition crc32 :: "8 word list \<Rightarrow> 32 word" where
  "crc32 bs = foldl crc_update 0xFFFFFFFF bs XOR 0xFFFFFFFF"

text \<open>
  \<^verbatim>\<open>
  def makeid(s):
      hexid = hex(binascii.crc32(bytes(s.encode("utf-8"))))[2:8]
      return hexid
  \<close>
\<close>

definition makeid :: "string \<Rightarrow> string" where
  "makeid s = slice 2 8 (hex (unat (crc32 (encode_utf8 s))))"

text \<open>
  The digest as the specification words it: the lower 24 bits of the checksum, in
  lowercase hexadecimal, padded with zeros to six characters.
\<close>

definition zfill :: "nat \<Rightarrow> string \<Rightarrow> string" where
  "zfill w s = replicate (w - length s) CHR ''0'' @ s"

definition hash_spec :: "string \<Rightarrow> string" where
  "hash_spec s = zfill 6 (hex_digits (unat (crc32 (encode_utf8 s) AND 0xFFFFFF)))"

subsection \<open>Errors, RDF terms and the program state\<close>

text \<open>
  The exceptions the modelled code can raise. \<open>NameError\<close> stands for Python's
  \<^verbatim>\<open>NameError\<close> and its subclass \<^verbatim>\<open>UnboundLocalError\<close> (a local variable read before
  any assignment).
\<close>

datatype error = NameError | KeyError | IndexError

datatype node = URIRef string | Literal string

type_synonym triple = "node \<times> node \<times> node"

record state =
  graph :: "triple list"
  printed :: "string list"

type_synonym outcome = "error \<times> state + state"

definition g_add :: "triple \<Rightarrow> state \<Rightarrow> state" where
  "g_add t st = st\<lparr>graph := graph st @ [t]\<rparr>"

definition print_line :: "string \<Rightarrow> state \<Rightarrow> state" where
  "print_line l st = st\<lparr>printed := printed st @ [l]\<rparr>"

text \<open>The state a run ends in: after the last statement, or where the exception was raised.\<close>

definition final :: "outcome \<Rightarrow> state" where
  "final r = (case r of Inl (e, st) \<Rightarrow> st | Inr st \<Rightarrow> st)"

definition raised :: "outcome \<Rightarrow> error option" where
  "raised r = (case r of Inl (e, st) \<Rightarrow> Some e | Inr st \<Rightarrow> None)"

text \<open>A \<^verbatim>\<open>for\<close> loop over a list: the first exception ends it.\<close>

fun for_each :: "('a \<Rightarrow> state \<Rightarrow> outcome) \<Rightarrow> 'a list \<Rightarrow> state \<Rightarrow> outcome" where
  "for_each body [] st = Inr st"
| "for_each body (x # xs) st =
     (case body x st of Inl e \<Rightarrow> Inl e | Inr st' \<Rightarrow> for_each body xs st')"

text \<open>
  A vocabulary dictionary is a Python \<^verbatim>\<open>dict\<close> from term to URI: an association list
  with distinct keys, in insertion order (the order of \<^verbatim>\<open>keys()\<close>). The dictionaries are
  global variables, which \<^verbatim>\<open>addtriple\<close> reaches by name (\<^verbatim>\<open>countydict\<close>,
  \<^verbatim>\<open>eval(prdetails[3])\<close>): the globals are a map from the name to the dictionary, and a
  name that is not bound raises \<open>NameError\<close>.
\<close>

type_synonym pydict = "(string \<times> string) list"

type_synonym globals = "string \<Rightarrow> pydict option"

definition keys :: "pydict \<Rightarrow> string list" where
  "keys d = map fst d"

subsection \<open>Tables\<close>

text \<open>
  A data frame: the column names and the rows of cells. \<^verbatim>\<open>df.shape\<close> is (number of rows,
  number of columns); \<^verbatim>\<open>df.iloc[r, c]\<close> raises \<open>IndexError\<close> out of range. The rows of a
  data frame all have one cell per column.
\<close>

record dataframe =
  columns :: "string list"
  cells :: "string list list"

definition shape0 :: "dataframe \<Rightarrow> nat" where
  "shape0 df = length (cells df)"

definition shape1 :: "dataframe \<Rightarrow> nat" where
  "shape1 df = length (columns df)"

definition iloc :: "dataframe \<Rightarrow> nat \<Rightarrow> nat \<Rightarrow> error + string" where
  "iloc df r c =
     (if r < shape0 df \<and> c < shape1 df \<and> c < length (cells df ! r)
      then Inr (cells df ! r ! c) else Inl IndexError)"

subsection \<open>Namespaces and predicate tables\<close>

text \<open>
  A predicate tuple \<^verbatim>\<open>prdetails\<close> is (kind, property URI, property label, dictionary name
  or identifier prefix, multiplicity), read by position in the source.
\<close>

type_synonym prdetails = "string \<times> string \<times> string \<times> string \<times> string"

definition pr0 :: "prdetails \<Rightarrow> string" where
  "pr0 p = fst p"

definition pr1 :: "prdetails \<Rightarrow> string" where
  "pr1 p = fst (snd p)"

definition pr2 :: "prdetails \<Rightarrow> string" where
  "pr2 p = fst (snd (snd p))"

definition pr3 :: "prdetails \<Rightarrow> string" where
  "pr3 p = fst (snd (snd (snd p)))"

definition pr4 :: "prdetails \<Rightarrow> string" where
  "pr4 p = snd (snd (snd (snd p)))"

definition auxprefix :: string where
  "auxprefix = ''https://raw.githubusercontent.com/adhollander/FSLschemas/main/CA_PPODterms.ttl#''"

definition rdfsuri :: string where
  "rdfsuri = ''http://www.w3.org/2000/01/rdf-schema#''"

definition rdfuri :: string where
  "rdfuri = ''http://www.w3.org/1999/02/22-rdf-syntax-ns#''"

definition fslsprefix :: string where
  "fslsprefix = ''https://raw.githubusercontent.com/adhollander/FSLschemas/main/fsisupp.owl#''"

definition dctermsuri :: string where
  "dctermsuri = ''http://purl.org/dc/terms/title/''"

text \<open>The class URIs of the sheets.\<close>

definition PPODrefs :: "(string \<times> string) list" where
  "PPODrefs = [
     (''Organizations'', ''http://xmlns.com/foaf/0.1/Organization''),
     (''Projects'', ''http://vivoweb.org/ontology/core#Project''),
     (''Programs'', ''http://vivoweb.org/ontology/core#Program''),
     (''People'', ''http://xmlns.com/foaf/0.1/Person''),
     (''Guidelines_Mandates'', ''http://www.sdsconsortium.org/schemas/sds-okn.owl#BestPracticesAndMandates''),
     (''Datasets'', ''http://vivoweb.org/ontology/core#Dataset''),
     (''Tools'', ''http://www.sdsconsortium.org/schemas/sds-okn.owl#Tool''),
     (''Issues (Integrated)'', ''https://raw.githubusercontent.com/adhollander/FSLschemas/main/sustsource.owl#IntegratedIssue''),
     (''Issues (Component)'', ''https://raw.githubusercontent.com/adhollander/FSLschemas/main/sustsource.owl#ComponentIssue'')]"

text \<open>The predicate dictionaries, one per sheet: column label to predicate tuple.\<close>

definition orgpred :: "(string \<times> prdetails) list" where
  "orgpred = [
     (''Organization'',
       (''d'', ''http://purl.org/dc/terms/title'', ''title'', '''', ''s'')),
     (''Alias'',
       (''d'', ''http://www.w3.org/2004/02/skos/core#altLabel'', ''alias'', '''', ''s'')),
     (''isPartOf'',
       (''o'', ''http://purl.org/dc/terms/isPartOf'', ''is part of'', ''org'', ''m'')),
     (''isMemberOf'',
       (''o'', ''http://www.w3.org/ns/org#memberOf'', ''is member of'', ''org'', ''m'')),
     (''County'',
       (''v'', ''https://raw.githubusercontent.com/adhollander/FSLschemas/main/fsisupp.owl#inCounty'', ''in county'', ''countydict'', ''m'')),
     (''Ecoregion'',
       (''v'', ''https://raw.githubusercontent.com/adhollander/FSLschemas/main/fsisupp.owl#inEcoregion'', ''in ecoregion'', ''ecoregiondict'', ''m'')),
     (''hasGeography'',
       (''v'', ''https://raw.githubusercontent.com/adhollander/FSLschemas/main/fsisupp.owl#assocGeo'', ''associated geography'', ''geofeaturedict'', ''m'')),
     (''hasOrgType'',
       (''v'', ''http://www.w3.org/ns/org#classification'', ''organization type'', ''orgtypedict'', ''m'')),
     (''Partners'',
       (''o'', ''http://vivoweb.org/ontology/core#hasCollaborator'', ''has partner'', ''org'', ''m'')),
     (''Funding'',
       (''o'', ''http://purl.org/cerif/frapo/isFundedBy'', ''is funded by'', ''org'', ''m'')),
     (''hasOrgActivity'',
       (''v'', ''http://purl.obolibrary.org/obo/RO_0000056'', ''participates in'', ''orgactivitydict'', ''m'')),
     (''Issues'',
       (''v'', ''https://raw.githubusercontent.com/adhollander/FSLschemas/main/fsisupp.owl#FSI_000239'', ''related sustainability issue'', ''issuedict'', ''m'')),
     (''URL'',
       (''u'', ''http://dev.poderopedia.com/vocab/hasURL'', ''has URL'', '''', ''m'')),
     (''Contact'',
       (''d'', ''http://vivoweb.org/ontology/core#contactInformation'', ''contact'', '''', ''s'')),
     (''Taxa'',
       (''d'', ''https://raw.githubusercontent.com/adhollander/FSLschemas/main/fsisupp.owl#taxa'', ''taxa'', '''', ''m'')),
     (''Land Cover - CWHR'',
       (''v'', ''https://raw.githubusercontent.com/adhollander/FSLschemas/main/fsisupp.owl#habitatType'', ''habitat type'', ''habtypedict'', ''m'')),
     (''Commodity'',
       (''v'', ''https://raw.githubusercontent.com/adhollander/FSLschemas/main/fsisupp.owl#commodity'', ''commodity'', ''commoditydict'', ''m'')),
     (''Ecological Process'',
       (''d'', ''https://raw.githubusercontent.com/adhollander/FSLschemas/main/fsisupp.owl#ecologicalProcess'', ''ecological process'', '''', ''s'')),
     (''GM_Name'',
       (''o'', ''https://raw.githubusercontent.com/adhollander/FSLschemas/main/fsisupp.owl#GM_Name'', ''guideline/mandate name'', ''gmt'', ''m'')),
     (''usecaseConservation'',
       (''d'', ''https://raw.githubusercontent.com/adhollander/FSLschemas/main/fsisupp.owl#usecaseCons'', ''use case: Conservation'', '''', ''s'')),
     (''usecaseMeat'',
       (''d'', ''https://raw.githubusercontent.com/adhollander/FSLschemas/main/fsisupp.owl#usecaseMeat'', ''use case: meat'', '''', ''s'')),
     (''usecaseSac'',
       (''d'', ''https://raw.githubusercontent.com/adhollander/FSLschemas/main/fsisupp.owl#usecaseSac'', ''use case: Sacramento'', '''', ''s'')),
     (''usecaseSCAG'',
       (''d'', ''https://raw.githubusercontent.com/adhollander/FSLschemas/main/fsisupp.owl#usecaseSCAG'', ''use case: SCAG'', '''', ''s'')),
     (''usecaseEcuador'',
       (''d'', ''https://raw.githubusercontent.com/adhollander/FSLschemas/main/fsisupp.owl#usecaseEcuador'', ''use case: Ecuador'', '''', ''s''))]"

definition projpred :: "(string \<times> prdetails) list" where
  "projpred = [
     (''Project'',
       (''d'', ''http://purl.org/dc/terms/title'', ''title'', '''', ''s'')),
     (''Alias'',
       (''d'', ''http://www.w3.org/2004/02/skos/core#altLabel'', ''alias'', '''', ''s'')),
     (''isPartOf'',
       (''o'', ''http://purl.org/dc/terms/isPartOf'', ''is part of'', ''prj'', ''m'')),
     (''ProjType'',
       (''v'', ''https://raw.githubusercontent.com/adhollander/FSLschemas/main/fsisupp.owl#projType'', ''project type'', ''projtypedict'', ''m'')),
     (''ProjProg'',
       (''o'', ''http://purl.obolibrary.org/obo/BFO_0000066'', ''occurs in'', ''prg'', ''m'')),
     (''Organization (Lead)'',
       (''o'', ''https://raw.githubusercontent.com/adhollander/FSLschemas/main/fsisupp.owl#leadOrg'', ''lead organization'', ''org'', ''m'')),
     (''Organization (Funding)'',
       (''o'', ''http://vivoweb.org/ontology/core#fundingAgentFor'', ''funding organization'', ''org'', ''m'')),
     (''OrgFundProg'',
       (''o'', ''http://vivoweb.org/ontology/core#hasFundingVehicle'', ''funding provided via'', ''prg'', ''m'')),
     (''Lead Individual'',
       (''d'', ''https://raw.githubusercontent.com/adhollander/FSLschemas/main/fsisupp.owl#leadIndividual'', ''lead individual'', '''', ''s'')),
     (''Partners'',
       (''o'', ''http://vivoweb.org/ontology/core#affiliatedOrganization'', ''partner organization'', ''org'', ''m'')),
     (''Location'',
       (''d'', ''http://purl.obolibrary.org/obo/RO_0001025'', ''located in'', '''', ''s'')),
     (''County'',
       (''v'', ''https://raw.githubusercontent.com/adhollander/FSLschemas/main/fsisupp.owl#inCounty'', ''in county'', ''countydict'', ''m'')),
     (''Ecoregion'',
       (''v'', ''https://raw.githubusercontent.com/adhollander/FSLschemas/main/fsisupp.owl#inEcoregion'', ''in ecoregion'', ''ecoregiondict'', ''m'')),
     (''Watershed'',
       (''d'', ''https://raw.githubusercontent.com/adhollander/FSLschemas/main/fsisupp.owl#inWatershed'', ''in watershed'', '''', ''s'')),
     (''Issues'',
       (''v'', ''https://raw.githubusercontent.com/adhollander/FSLschemas/main/fsisupp.owl#FSI_000239'', ''related sustainability issue'', ''issuedict'', ''m'')),
     (''has description'',
       (''u'', ''https://raw.githubusercontent.com/adhollander/FSLschemas/main/fsisupp.owl#projDetails'', ''project details'', '''', ''s'')),
     (''Indicators'',
       (''d'', ''https://raw.githubusercontent.com/adhollander/FSLschemas/main/fsisupp.owl#hasIndicator'', ''has indicator'', '''', ''s'')),
     (''inDataset'',
       (''o'', ''http://purl.obolibrary.org/obo/RO_0002352'', ''input of'', ''dts'', ''m'')),
     (''outDataset'',
       (''o'', ''http://purl.obolibrary.org/obo/RO_0002353'', ''output of'', ''dts'', ''m'')),
     (''Strategies'',
       (''d'', ''https://raw.githubusercontent.com/adhollander/FSLschemas/main/fsisupp.owl#hasStrategy'', ''has strategy'', '''', ''m'')),
     (''URL'',
       (''u'', ''http://dev.poderopedia.com/vocab/hasURL'', ''has URL'', '''', ''m'')),
     (''Taxa'',
       (''d'', ''https://raw.githubusercontent.com/adhollander/FSLschemas/main/fsisupp.owl#taxa'', ''taxa'', '''', ''m'')),
     (''Land Cover - CWHR'',
       (''v'', ''https://raw.githubusercontent.com/adhollander/FSLschemas/main/fsisupp.owl#habitatType'', ''habitat type'', ''habtypedict'', ''m'')),
     (''Ecological Process'',
       (''d'', ''https://raw.githubusercontent.com/adhollander/FSLschemas/main/fsisupp.owl#ecologicalProcess'', ''ecological process'', '''', ''s'')),
     (''Start Year'',
       (''d'', ''http://dbpedia.org/ontology/startYear'', ''startYear'', '''', ''s'')),
     (''End Year'',
       (''d'', ''http://dbpedia.org/ontology/endYear'', ''endYear'', '''', ''s'')),
     (''Funding'',
       (''o'', ''http://purl.org/cerif/frapo/isFundedBy'', ''isFundedBy'', ''org'', ''m'')),
     (''Latitude'',
       (''d'', ''https://www.w3.org/2003/01/geo/wgs84_pos#lat'', ''latitude'', '''', ''s'')),
     (''Longitude'',
       (''d'', ''https://www.w3.org/2003/01/geo/wgs84_pos#long'', ''longitude'', '''', ''s'')),
     (''FSL doc'',
       (''u'', ''https://raw.githubusercontent.com/adhollander/FSLschemas/main/fsisupp.owl#FSLdoc'', ''FSL doc'', '''', ''s'')),
     (''Use Case (Meat)'',
       (''d'', ''https://raw.githubusercontent.com/adhollander/FSLschemas/main/fsisupp.owl#usecaseMeat'', ''use case: meat'', '''', ''s'')),
     (''Use Case (EPA)'',
       (''d'', ''https://raw.githubusercontent.com/adhollander/FSLschemas/main/fsisupp.owl#usecaseEPA'', ''use case: EPA'', '''', ''s'')),
     (''Use Case (JPA)'',
       (''d'', ''https://raw.githubusercontent.com/adhollander/FSLschemas/main/fsisupp.owl#usecaseJPA'', ''use case: JPA'', '''', ''s''))]"

definition progpred :: "(string \<times> prdetails) list" where
  "progpred = [
     (''Program'',
       (''d'', ''http://purl.org/dc/terms/title'', ''title'', '''', ''s'')),
     (''Alias'',
       (''d'', ''http://www.w3.org/2004/02/skos/core#altLabel'', ''alias'', '''', ''s'')),
     (''ProgType'',
       (''v'', ''https://raw.githubusercontent.com/adhollander/FSLschemas/main/fsisupp.owl#progType'', ''program type'', ''progtypedict'', ''m'')),
     (''Organization'',
       (''o'', ''https://raw.githubusercontent.com/adhollander/FSLschemas/main/fsisupp.owl#leadOrg'', ''lead organization'', ''org'', ''m'')),
     (''Partners'',
       (''o'', ''http://vivoweb.org/ontology/core#affiliatedOrganization'', ''partner organization'', ''org'', ''m'')),
     (''Issues'',
       (''v'', ''https://raw.githubusercontent.com/adhollander/FSLschemas/main/fsisupp.owl#FSI_000239'', ''related sustainability issue'', ''issuedict'', ''m'')),
     (''Lead Individual'',
       (''d'', ''https://raw.githubusercontent.com/adhollander/FSLschemas/main/fsisupp.owl#leadIndividual'', ''lead individual'', '''', ''s'')),
     (''GM_Name'',
       (''o'', ''https://raw.githubusercontent.com/adhollander/FSLschemas/main/fsisupp.owl#GM_Name'', ''guideline/mandate name'', ''gmt'', ''m'')),
     (''County'',
       (''v'', ''https://raw.githubusercontent.com/adhollander/FSLschemas/main/fsisupp.owl#inCounty'', ''in county'', ''countydict'', ''m'')),
     (''Ecoregion'',
       (''v'', ''https://raw.githubusercontent.com/adhollander/FSLschemas/main/fsisupp.owl#inEcoregion'', ''in ecoregion'', ''ecoregiondict'', ''m'')),
     (''URL'',
       (''u'', ''http://dev.poderopedia.com/vocab/hasURL'', ''has URL'', '''', ''m'')),
     (''Taxa'',
       (''d'', ''https://raw.githubusercontent.com/adhollander/FSLschemas/main/fsisupp.owl#taxa'', ''taxa'', '''', ''m'')),
     (''Use Case (Meat)'',
       (''d'', ''https://raw.githubusercontent.com/adhollander/FSLschemas/main/fsisupp.owl#usecaseMeat'', ''use case: meat'', '''', ''s'')),
     (''Use Case (EPA)'',
       (''d'', ''https://raw.githubusercontent.com/adhollander/FSLschemas/main/fsisupp.owl#usecaseEPA'', ''use case: EPA'', '''', ''s'')),
     (''Use Case (JPA)'',
       (''d'', ''https://raw.githubusercontent.com/adhollander/FSLschemas/main/fsisupp.owl#usecaseJPA'', ''use case: JPA'', '''', ''s'')),
     (''Use Case (SCAG)'',
       (''d'', ''https://raw.githubusercontent.com/adhollander/FSLschemas/main/fsisupp.owl#usecaseSCAG'', ''use case: SCAG'', '''', ''s''))]"

definition personpred :: "(string \<times> prdetails) list" where
  "personpred = [
     (''Full Name'',
       (''d'', ''http://xmlns.com/foaf/0.1/name'', ''full name'', '''', ''s'')),
     (''Last Name'',
       (''d'', ''http://xmlns.com/foaf/0.1/lastName'', ''last name'', '''', ''s'')),
     (''First Name'',
       (''d'', ''http://xmlns.com/foaf/0.1/firstName'', ''first name'', '''', ''s'')),
     (''Email'',
       (''d'', ''http://xmlns.com/foaf/0.1/mbox'', ''email'', '''', ''s'')),
     (''Phone'',
       (''d'', ''http://xmlns.com/foaf/0.1/phone'', ''phone'', '''', ''s'')),
     (''Issues'',
       (''v'', ''https://raw.githubusercontent.com/adhollander/FSLschemas/main/fsisupp.owl#FSI_000239'', ''related sustainability issue'', ''issuedict'', ''m'')),
     (''Notes'',
       (''d'', ''https://raw.githubusercontent.com/adhollander/FSLschemas/main/fsisupp.owl#FSI_000243'', ''note'', '''', ''s'')),
     (''usecaseConservation'',
       (''d'', ''https://raw.githubusercontent.com/adhollander/FSLschemas/main/fsisupp.owl#usecaseCons'', ''use case: Conservation'', '''', ''s'')),
     (''usecaseMeat'',
       (''d'', ''https://raw.githubusercontent.com/adhollander/FSLschemas/main/fsisupp.owl#usecaseMeat'', ''use case: meat'', '''', ''s'')),
     (''usecaseSac'',
       (''d'', ''https://raw.githubusercontent.com/adhollander/FSLschemas/main/fsisupp.owl#usecaseSac'', ''use case: Sacramento'', '''', ''s'')),
     (''usecaseSCAG'',
       (''d'', ''https://raw.githubusercontent.com/adhollander/FSLschemas/main/fsisupp.owl#usecaseSCAG'', ''use case: SCAG'', '''', ''s'')),
     (''usecaseEcuador'',
       (''d'', ''https://raw.githubusercontent.com/adhollander/FSLschemas/main/fsisupp.owl#usecaseEcuador'', ''use case: Ecuador'', '''', ''s'')),
     (''usecaseBayAreaRAMP'',
       (''d'', ''https://raw.githubusercontent.com/adhollander/FSLschemas/main/fsisupp.owl#usecaseBayAreaRAMP'', ''use case: Bay Area RAMP'', '''', ''s''))]"

definition personorgpred :: "(string \<times> prdetails) list" where
  "personorgpred = [
     (''Full Name'',
       (''o'', ''http://purl.obolibrary.org/obo/RO_0000057'', ''has participant'', ''per'', ''s'')),
     (''Organization'',
       (''o'', ''http://purl.obolibrary.org/obo/RO_0000081'', ''role of'', ''org'', ''s'')),
     (''Position (Verbatim)'',
       (''d'', ''http://purl.org/dc/terms/title'', ''title'', '''', ''d'')),
     (''Position (Type)'',
       (''o'', ''https://raw.githubusercontent.com/adhollander/FSLschemas/main/fsisupp.owl#positionType'', ''position type'', ''positiontypedict'', ''m'')),
     (''Year (Start)'',
       (''d'', ''http://dbpedia.org/ontology/startYear'', ''startYear'', '''', ''d'')),
     (''Year (End)'',
       (''d'', ''http://dbpedia.org/ontology/endYear'', ''endYear'', '''', ''d''))]"

definition personprojpred :: "(string \<times> prdetails) list" where
  "personprojpred = [
     (''Full Name'',
       (''o'', ''http://purl.obolibrary.org/obo/RO_0000057'', ''has participant'', ''per'', ''s'')),
     (''Project'',
       (''o'', ''http://purl.obolibrary.org/obo/RO_0002331'', ''involved in'', ''prj'', ''s'')),
     (''ProjRole'',
       (''d'', ''http://purl.obolibrary.org/obo/RO_0000087'', ''has role'', '''', ''s''))]"

definition personprogrampred :: "(string \<times> prdetails) list" where
  "personprogrampred = [
     (''Full Name'',
       (''o'', ''http://purl.obolibrary.org/obo/RO_0000057'', ''has participant'', ''per'', ''s'')),
     (''Program'',
       (''o'', ''http://purl.obolibrary.org/obo/RO_0002331'', ''involved in'', ''prg'', ''s'')),
     (''Role'',
       (''d'', ''http://purl.obolibrary.org/obo/RO_0000087'', ''has role'', '''', ''s'')),
     (''Role (Type)'',
       (''u'', ''https://raw.githubusercontent.com/adhollander/FSLschemas/main/fsisupp.owl#roleType'', ''role type'', '''', ''s'')),
     (''Year (Start)'',
       (''d'', ''http://dbpedia.org/ontology/startYear'', ''start year'', '''', ''s'')),
     (''Year (End)'',
       (''d'', ''http://dbpedia.org/ontology/endYear'', ''end year'', '''', ''s''))]"

definition guidelinespred :: "(string \<times> prdetails) list" where
  "guidelinespred = [
     (''GM_Name'',
       (''d'', ''http://purl.org/dc/terms/title'', ''Name'', '''', ''s'')),
     (''Alias'',
       (''d'', ''http://www.w3.org/2004/02/skos/core#altLabel'', ''alias'', '''', ''s'')),
     (''GMType'',
       (''v'', ''https://raw.githubusercontent.com/adhollander/FSLschemas/main/fsisupp.owl#gmType'', ''guideline/mandate type'', ''gmtypedict'', ''m'')),
     (''Year'',
       (''d'', ''http://purl.org/dc/terms/date'', ''date'', '''', ''s'')),
     (''Issues'',
       (''v'', ''https://raw.githubusercontent.com/adhollander/FSLschemas/main/fsisupp.owl#FSI_000239'', ''related sustainability issue'', ''issuedict'', ''m'')),
     (''GovLevel'',
       (''v'', ''https://raw.githubusercontent.com/adhollander/FSLschemas/main/fsisupp.owl#govLevel'', ''government level'', ''govleveldict'', ''m'')),
     (''Counties'',
       (''v'', ''https://raw.githubusercontent.com/adhollander/FSLschemas/main/fsisupp.owl#inCounty'', ''in county'', ''countydict'', ''m'')),
     (''Ecoregions'',
       (''v'', ''https://raw.githubusercontent.com/adhollander/FSLschemas/main/fsisupp.owl#inEcoregion'', ''in ecoregion'', ''ecoregiondict'', ''m'')),
     (''URL'',
       (''u'', ''http://dev.poderopedia.com/vocab/hasURL'', ''has URL'', '''', ''s'')),
     (''Taxa'',
       (''d'', ''https://raw.githubusercontent.com/adhollander/FSLschemas/main/fsisupp.owl#taxa'', ''taxa'', '''', ''s'')),
     (''Land Cover - CWHR'',
       (''v'', ''https://raw.githubusercontent.com/adhollander/FSLschemas/main/fsisupp.owl#habitatType'', ''habitat type'', ''habtypedict'', ''m'')),
     (''Ecological Process'',
       (''d'', ''https://raw.githubusercontent.com/adhollander/FSLschemas/main/fsisupp.owl#ecologicalProcess'', ''ecological process'', '''', ''s'')),
     (''Use Case (Meat)'',
       (''d'', ''https://raw.githubusercontent.com/adhollander/FSLschemas/main/fsisupp.owl#usecaseMeat'', ''use case: meat'', '''', ''s'')),
     (''Use Case (EPA)'',
       (''d'', ''https://raw.githubusercontent.com/adhollander/FSLschemas/main/fsisupp.owl#usecaseEPA'', ''use case: EPA'', '''', ''s''))]"

text \<open>The lookup for the second column of the organization-guideline sheet; its tuples have three places.\<close>

definition orggmpred :: "(string \<times> (string \<times> string \<times> string)) list" where
  "orggmpred = [
     (''Created'',
       (''o'', ''http://iflastandards.info/ns/fr/frbr/frbrer/P2008'', ''creator of'')),
     (''Was Created By'',
       (''o'', ''http://iflastandards.info/ns/fr/frbr/frbrer/P2007'', ''was created by'')),
     (''Implements'',
       (''o'', ''https://w3id.org/dingo#implements'', ''implements'')),
     (''Mandates'',
       (''o'', ''https://raw.githubusercontent.com/adhollander/FSLschemas/main/fsisupp.owl#mandates'', ''mandates'')),
     (''Is Bound By'',
       (''o'', ''https://raw.githubusercontent.com/adhollander/FSLschemas/main/fsisupp.owl#isboundby'', ''is bound by'')),
     (''Funds Established By'',
       (''o'', ''http://vivoweb.org/ontology/core#hasFundingVehicle'', ''has funding vehicle'')),
     (''Is Certified By'',
       (''o'', ''https://raw.githubusercontent.com/adhollander/FSLschemas/main/fsisupp.owl#iscertifiedby'', ''is certified by'')),
     (''Enforces'',
       (''o'', ''https://raw.githubusercontent.com/adhollander/FSLschemas/main/fsisupp.owl#enforces'', ''enforces''))]"

definition orgprojgmpred :: "(string \<times> prdetails) list" where
  "orgprojgmpred = [
     (''Organization'',
       (''o'', ''http://purl.obolibrary.org/obo/RO_0000057'', ''has participant'', ''org'', ''s'')),
     (''OrgProjRelation'',
       (''o'', ''http://purl.obolibrary.org/obo/RO_0000087'', ''has role'', ''orgprojrelationdict'', ''s'')),
     (''Project'',
       (''o'', ''http://purl.obolibrary.org/obo/RO_0002331'', ''involved in'', ''prj'', ''s''))]"

definition datasetpred :: "(string \<times> prdetails) list" where
  "datasetpred = [
     (''Name'',
       (''d'', ''http://purl.org/dc/terms/title'', ''title'', '''', ''s'')),
     (''Organization (Created By)'',
       (''o'', ''http://iflastandards.info/ns/fr/frbr/frbrer/P2007'', ''was created by'', ''org'', ''s'')),
     (''Issues'',
       (''v'', ''https://raw.githubusercontent.com/adhollander/FSLschemas/main/fsisupp.owl#FSI_000239'', ''related sustainability issue'', ''issuedict'', ''m'')),
     (''GM_Name'',
       (''o'', ''https://raw.githubusercontent.com/adhollander/FSLschemas/main/fsisupp.owl#mandatedBy'', ''mandated by'', ''gmt'', ''m'')),
     (''URL'',
       (''u'', ''http://dev.poderopedia.com/vocab/hasURL'', ''has URL'', '''', ''s'')),
     (''Use Case (Meat)'',
       (''d'', ''https://raw.githubusercontent.com/adhollander/FSLschemas/main/fsisupp.owl#usecaseMeat'', ''use case: meat'', '''', ''s'')),
     (''Use Case (JPA)'',
       (''d'', ''https://raw.githubusercontent.com/adhollander/FSLschemas/main/fsisupp.owl#usecaseJPA'', ''use case: JPA'', '''', ''s'')),
     (''Use Case (EPA)'',
       (''d'', ''https://raw.githubusercontent.com/adhollander/FSLschemas/main/fsisupp.owl#usecaseEPA'', ''use case: EPA'', '''', ''s''))]"

definition toolpred :: "(string \<times> prdetails) list" where
  "toolpred = [
     (''Tool'',
       (''d'', ''http://purl.org/dc/terms/title'', ''title'', '''', ''s'')),
     (''Alias'',
       (''d'', ''http://www.w3.org/2004/02/skos/core#altLabel'', ''alias'', '''', ''s'')),
     (''Organization'',
       (''o'', ''http://iflastandards.info/ns/fr/frbr/frbrer/P2007'', ''was created by'', ''org'', ''s'')),
     (''Issues'',
       (''v'', ''https://raw.githubusercontent.com/adhollander/FSLschemas/main/fsisupp.owl#FSI_000239'', ''related sustainability issue'', ''issuedict'', ''m'')),
     (''inDataset'',
       (''o'', ''http://purl.obolibrary.org/obo/RO_0002233'', ''has input'', ''dts'', ''m'')),
     (''outDataset'',
       (''o'', ''http://purl.obolibrary.org/obo/RO_0000087'', ''has output'', ''dts'', ''m'')),
     (''ToolDetails'',
       (''d'', ''http://purl.org/dc/terms/references'', ''references'', '''', ''s'')),
     (''URL'',
       (''u'', ''http://dev.poderopedia.com/vocab/hasURL'', ''has URL'', '''', ''s''))]"

text \<open>The use cases: column label to (URI, label). No statement of the program reads this dictionary.\<close>

definition usecases :: "(string \<times> (string \<times> string)) list" where
  "usecases = [
     (''usecaseConservation'',
       (''https://raw.githubusercontent.com/adhollander/FSLschemas/main/CA_PPODterms.ttl#usecaseConservation'', ''Conservation use case'')),
     (''usecaseMeat'',
       (''https://raw.githubusercontent.com/adhollander/FSLschemas/main/CA_PPODterms.ttl#usecaseMeat'', ''Meat use case'')),
     (''usecaseSac'',
       (''https://raw.githubusercontent.com/adhollander/FSLschemas/main/CA_PPODterms.ttl#usecaseSac'', ''Sacramento case'')),
     (''usecaseSCAG'',
       (''https://raw.githubusercontent.com/adhollander/FSLschemas/main/CA_PPODterms.ttl#usecaseSCAG'', ''SCAG use case'')),
     (''usecaseEcuador'',
       (''https://raw.githubusercontent.com/adhollander/FSLschemas/main/CA_PPODterms.ttl#usecaseEcuador'', ''Ecuador use case'')),
     (''usecaseBayAreaRAMP'',
       (''https://raw.githubusercontent.com/adhollander/FSLschemas/main/CA_PPODterms.ttl#BayAreaRAMP'', ''Bay Area RAMP use case'')),
     (''Use Case (Meat)'',
       (''https://raw.githubusercontent.com/adhollander/FSLschemas/main/CA_PPODterms.ttl#usecaseMeat'', ''Meat use case'')),
     (''Use Case (EPA)'',
       (''https://raw.githubusercontent.com/adhollander/FSLschemas/main/CA_PPODterms.ttl#usecaseEPA'', ''EPA use case'')),
     (''Use Case (JPA)'',
       (''https://raw.githubusercontent.com/adhollander/FSLschemas/main/CA_PPODterms.ttl#usecaseJPA'', ''JPA use case'')),
     (''Use Case (SCAG)'',
       (''https://raw.githubusercontent.com/adhollander/FSLschemas/main/CA_PPODterms.ttl#usecaseSCAG'', ''SCAG use case''))]"

subsection \<open>The triple emitter\<close>

text \<open>
  \<^verbatim>\<open>
  def addtriple(g, prdetails, subjval, cellval, subjectstr):
      subj =  rdflib.URIRef(subjval)
      if cellval == 'All':
          if prdetails[3] == 'countydict':
              cellval = ','.join(countydict.keys())
          elif prdetails[3] == 'ecoregiondict':
              cellval = ','.join(ecoregiondict.keys())
      if prdetails[4] == 'm':
          celllist = [s.strip() for s in cellval.split(',')]
      else:
          celllist = [cellval]
      for cell in celllist:
          if prdetails[0] == 'd':
              pred = rdflib.URIRef(prdetails[1])
              if 'usecase' in prdetails[1]:
                  if cell == 'X' or cell == 'x':
                      pred = rdflib.URIRef(fslsprefix + "usecase")
                      obj = rdflib.URIRef(prdetails[1])
              else:
                  if prdetails[3] == 'countydict':
                      cell = cell + " County"
                  obj = rdflib.Literal(cell)
              g.add((subj, pred, obj))
          elif prdetails[0] == 'v':
              try:
                  obj = rdflib.URIRef(eval(prdetails[3])[cell])
                  pred = rdflib.URIRef(prdetails[1])
                  g.add((subj, pred, obj))
              except KeyError:
                  print(subjectstr + ": " + cell + " not in " + prdetails[3])
                  pass
          elif prdetails[0] == 'o':
              pred = rdflib.URIRef(prdetails[1])
              obj = rdflib.URIRef( auxprefix + prdetails[3] + "_" + makeid(cell))
              g.add((subj, pred, obj))
          elif prdetails[0] == 'u':
              pred = rdflib.URIRef(prdetails[1])
              obj = rdflib.URIRef(cell)
              g.add((subj, pred, obj))
  \<close>
\<close>

text \<open>The expansion of the cell \<^verbatim>\<open>All\<close>.\<close>

definition expand_all :: "globals \<Rightarrow> prdetails \<Rightarrow> string \<Rightarrow> error + string" where
  "expand_all env prd cellval =
     (if cellval = ''All'' then
        (if pr3 prd = ''countydict'' then
           (case env ''countydict'' of None \<Rightarrow> Inl NameError
            | Some d \<Rightarrow> Inr (join '','' (keys d)))
         else if pr3 prd = ''ecoregiondict'' then
           (case env ''ecoregiondict'' of None \<Rightarrow> Inl NameError
            | Some d \<Rightarrow> Inr (join '','' (keys d)))
         else Inr cellval)
      else Inr cellval)"

definition celllist :: "prdetails \<Rightarrow> string \<Rightarrow> string list" where
  "celllist prd cellval =
     (if pr4 prd = ''m'' then map strip (split_comma cellval) else [cellval])"

text \<open>
  The body of \<^verbatim>\<open>for cell in celllist\<close>. The local variable \<^verbatim>\<open>obj\<close> lives across the
  iterations: it is \<open>None\<close> until its first assignment, and reading it then raises.
  The body returns the new \<^verbatim>\<open>obj\<close> with the new state.
\<close>

definition cell_body ::
  "globals \<Rightarrow> prdetails \<Rightarrow> node \<Rightarrow> string \<Rightarrow> node option \<Rightarrow> state \<Rightarrow> string
     \<Rightarrow> error \<times> state + node option \<times> state" where
  "cell_body env prd subj subjectstr obj st cell =
     (if pr0 prd = ''d'' then
        (if contains ''usecase'' (pr1 prd) then
           (if cell = ''X'' \<or> cell = ''x'' then
              Inr (Some (URIRef (pr1 prd)),
                   g_add (subj, URIRef (fslsprefix @ ''usecase''), URIRef (pr1 prd)) st)
            else
              (case obj of
                 None \<Rightarrow> Inl (NameError, st)
               | Some ob \<Rightarrow> Inr (Some ob, g_add (subj, URIRef (pr1 prd), ob) st)))
         else
           (let cell' = (if pr3 prd = ''countydict'' then cell @ '' County'' else cell)
            in Inr (Some (Literal cell'), g_add (subj, URIRef (pr1 prd), Literal cell') st)))
      else if pr0 prd = ''v'' then
        (case env (pr3 prd) of
           None \<Rightarrow> Inl (NameError, st)
         | Some d \<Rightarrow>
             (case map_of d cell of
                None \<Rightarrow>
                  Inr (obj, print_line (subjectstr @ '': '' @ cell @ '' not in '' @ pr3 prd) st)
              | Some u \<Rightarrow> Inr (Some (URIRef u), g_add (subj, URIRef (pr1 prd), URIRef u) st)))
      else if pr0 prd = ''o'' then
        (let ob = URIRef (auxprefix @ pr3 prd @ ''_'' @ makeid cell)
         in Inr (Some ob, g_add (subj, URIRef (pr1 prd), ob) st))
      else if pr0 prd = ''u'' then
        Inr (Some (URIRef cell), g_add (subj, URIRef (pr1 prd), URIRef cell) st)
      else Inr (obj, st))"

fun cells_loop ::
  "globals \<Rightarrow> prdetails \<Rightarrow> node \<Rightarrow> string \<Rightarrow> node option \<Rightarrow> state \<Rightarrow> string list
     \<Rightarrow> outcome" where
  "cells_loop env prd subj subjectstr obj st [] = Inr st"
| "cells_loop env prd subj subjectstr obj st (cell # rest) =
     (case cell_body env prd subj subjectstr obj st cell of
        Inl e \<Rightarrow> Inl e
      | Inr (obj', st') \<Rightarrow> cells_loop env prd subj subjectstr obj' st' rest)"


definition addtriple ::
  "globals \<Rightarrow> state \<Rightarrow> prdetails \<Rightarrow> string \<Rightarrow> string \<Rightarrow> string \<Rightarrow> outcome" where
  "addtriple env g prd subjval cellval subjectstr =
     (case expand_all env prd cellval of
        Inl e \<Rightarrow> Inl (e, g)
      | Inr cellval' \<Rightarrow>
          cells_loop env prd (URIRef subjval) subjectstr None g (celllist prd cellval'))"

text \<open>
  What a vocabulary column adds for a list of values, to state its effect with: a triple for
  each value that is a key of the dictionary, and a line for each value that is not.
\<close>

definition vocab_triples :: "node \<Rightarrow> prdetails \<Rightarrow> pydict \<Rightarrow> string list \<Rightarrow> triple list" where
  "vocab_triples subj prd d vs =
     concat (map (\<lambda>v. case map_of d v of
                         None \<Rightarrow> []
                       | Some u \<Rightarrow> [(subj, URIRef (pr1 prd), URIRef u)]) vs)"

definition vocab_lines :: "string \<Rightarrow> prdetails \<Rightarrow> pydict \<Rightarrow> string list \<Rightarrow> string list" where
  "vocab_lines subjectstr prd d vs =
     concat (map (\<lambda>v. case map_of d v of
                         None \<Rightarrow> [subjectstr @ '': '' @ v @ '' not in '' @ pr3 prd]
                       | Some u \<Rightarrow> []) vs)"

definition vocab_adds ::
  "state \<Rightarrow> node \<Rightarrow> string \<Rightarrow> prdetails \<Rightarrow> pydict \<Rightarrow> string list \<Rightarrow> state" where
  "vocab_adds st subj subjectstr prd d vs =
     st\<lparr>graph := graph st @ vocab_triples subj prd d vs,
        printed := printed st @ vocab_lines subjectstr prd d vs\<rparr>"

subsection \<open>Ingestion of the entity tables\<close>

text \<open>
  The loops over the organizations, programs, projects, people, guidelines, datasets and
  tools tables are one text with four things changed: the table, the predicate dictionary,
  the prefix of the identifier and the key into \<^verbatim>\<open>PPODrefs\<close>; the guidelines loop adds
  the label before the type, the others the type before the label. For the organizations:
  \<^verbatim>\<open>
  for r in range(orgdf.shape[0]):
      orgname = orgdf.iloc[r,0]
      subjval = auxprefix + "org_" + makeid(orgname)
      g.add((rdflib.URIRef(subjval), rdflib.URIRef(rdfuri + 'type'),
             rdflib.URIRef(PPODrefs['Organizations'])))
      g.add((rdflib.URIRef(subjval), rdflib.URIRef(rdfsuri + 'label'), rdflib.Literal(orgname)))
      for c in range(orgdf.shape[1]):
          colname = orgdf.columns[c]
          cellval = orgdf.iloc[r,c]
          if cellval != '':
              addtriple(g, orgpred[colname], subjval, cellval, orgname)
  \<close>
\<close>

definition type_triple :: "string \<Rightarrow> string \<Rightarrow> triple" where
  "type_triple subjval cls = (URIRef subjval, URIRef (rdfuri @ ''type''), URIRef cls)"

definition label_triple :: "string \<Rightarrow> string \<Rightarrow> triple" where
  "label_triple subjval l = (URIRef subjval, URIRef (rdfsuri @ ''label''), Literal l)"

text \<open>The call \<^verbatim>\<open>addtriple(g, pred[colname], subjval, cellval, subjectstr)\<close> under its guard.\<close>

definition emit_cell ::
  "globals \<Rightarrow> (string \<times> prdetails) list \<Rightarrow> string \<Rightarrow> string \<Rightarrow> string \<Rightarrow> string
     \<Rightarrow> state \<Rightarrow> outcome" where
  "emit_cell env schema colname subjval subjectstr cellval st =
     (if cellval \<noteq> '''' then
        (case map_of schema colname of
           None \<Rightarrow> Inl (KeyError, st)
         | Some prd \<Rightarrow> addtriple env st prd subjval cellval subjectstr)
      else Inr st)"

definition entity_column ::
  "globals \<Rightarrow> (string \<times> prdetails) list \<Rightarrow> dataframe \<Rightarrow> nat \<Rightarrow> string \<Rightarrow> string
     \<Rightarrow> nat \<Rightarrow> state \<Rightarrow> outcome" where
  "entity_column env schema df r subjval subjectstr c st =
     (case iloc df r c of
        Inl e \<Rightarrow> Inl (e, st)
      | Inr cellval \<Rightarrow> emit_cell env schema (columns df ! c) subjval subjectstr cellval st)"

definition entity_row ::
  "globals \<Rightarrow> (string \<times> prdetails) list \<Rightarrow> string \<Rightarrow> string \<Rightarrow> bool \<Rightarrow> dataframe
     \<Rightarrow> nat \<Rightarrow> state \<Rightarrow> outcome" where
  "entity_row env schema pfx cls type_first df r st =
     (case iloc df r 0 of
        Inl e \<Rightarrow> Inl (e, st)
      | Inr name \<Rightarrow>
          (case map_of PPODrefs cls of
             None \<Rightarrow> Inl (KeyError, st)
           | Some clsuri \<Rightarrow>
               (let subjval = auxprefix @ pfx @ makeid name;
                    st' = (if type_first
                           then g_add (label_triple subjval name)
                                  (g_add (type_triple subjval clsuri) st)
                           else g_add (type_triple subjval clsuri)
                                  (g_add (label_triple subjval name) st))
                in for_each (entity_column env schema df r subjval name)
                     [0..<shape1 df] st')))"

definition entity_rows ::
  "globals \<Rightarrow> (string \<times> prdetails) list \<Rightarrow> string \<Rightarrow> string \<Rightarrow> bool \<Rightarrow> dataframe
     \<Rightarrow> state \<Rightarrow> outcome" where
  "entity_rows env schema pfx cls type_first df st =
     for_each (entity_row env schema pfx cls type_first df) [0..<shape0 df] st"

definition organizations :: "globals \<Rightarrow> dataframe \<Rightarrow> state \<Rightarrow> outcome" where
  "organizations env orgdf = entity_rows env orgpred ''org_'' ''Organizations'' True orgdf"

definition programs :: "globals \<Rightarrow> dataframe \<Rightarrow> state \<Rightarrow> outcome" where
  "programs env progdf = entity_rows env progpred ''prg_'' ''Programs'' True progdf"

definition projects :: "globals \<Rightarrow> dataframe \<Rightarrow> state \<Rightarrow> outcome" where
  "projects env projdf = entity_rows env projpred ''prj_'' ''Projects'' True projdf"

definition people :: "globals \<Rightarrow> dataframe \<Rightarrow> state \<Rightarrow> outcome" where
  "people env peopledf = entity_rows env personpred ''per_'' ''People'' True peopledf"

definition guidelines :: "globals \<Rightarrow> dataframe \<Rightarrow> state \<Rightarrow> outcome" where
  "guidelines env guidelinesdf =
     entity_rows env guidelinespred ''gmt_'' ''Guidelines_Mandates'' False guidelinesdf"

definition datasets :: "globals \<Rightarrow> dataframe \<Rightarrow> state \<Rightarrow> outcome" where
  "datasets env datasetdf = entity_rows env datasetpred ''dat_'' ''Datasets'' True datasetdf"

definition tools :: "globals \<Rightarrow> dataframe \<Rightarrow> state \<Rightarrow> outcome" where
  "tools env tooldf = entity_rows env toolpred ''tol_'' ''Tools'' True tooldf"


text \<open>The state of a row once its type and label triples are added, in the order of its loop.\<close>

definition first_triples :: "bool \<Rightarrow> string \<Rightarrow> string \<Rightarrow> string \<Rightarrow> state \<Rightarrow> state" where
  "first_triples type_first subjval clsuri name st =
     (if type_first
      then g_add (label_triple subjval name) (g_add (type_triple subjval clsuri) st)
      else g_add (type_triple subjval clsuri) (g_add (label_triple subjval name) st))"

subsection \<open>The entity tables as the specification words them\<close>





subsection \<open>Ingestion of the relation tables\<close>

text \<open>Reading a cell inside a statement: an \<open>IndexError\<close> leaves the state as it is.\<close>

definition reading :: "error + 'a \<Rightarrow> state \<Rightarrow> ('a \<Rightarrow> error \<times> state + 'b) \<Rightarrow> error \<times> state + 'b" where
  "reading x st k = (case x of Inl e \<Rightarrow> Inl (e, st) | Inr v \<Rightarrow> k v)"

definition role_class :: string where
  "role_class = ''http://purl.obolibrary.org/obo/BFO_0000023''"

text \<open>
  \<^verbatim>\<open>
  for r in range(peopleorgdf.shape[0]):
      rolestr = peopleorgdf.iloc[r,0] + peopleorgdf.iloc[r,1] + peopleorgdf.iloc[r,2]
      subjval = auxprefix + "rol_" + makeid(rolestr)
      g.add((rdflib.URIRef(subjval), rdflib.URIRef(rdfsuri + 'label'),
             rdflib.Literal(peopleorgdf.iloc[r,2])))
      g.add((rdflib.URIRef(subjval), rdflib.URIRef(rdfuri + 'type'),
             rdflib.URIRef('http://purl.obolibrary.org/obo/BFO_0000023')))
      for c in range(peopleorgdf.shape[1]):
          colname = peopleorgdf.columns[c]
          cellval = peopleorgdf.iloc[r,c]
          if peopleorgdf.iloc[r,0] == "Rebecca Fris":
              print(peopleorgdf.iloc[r,0],"*" , peopleorgdf.iloc[r,2], "*",  peopleorgdf.iloc[r,3])
          if c == 2:
              if cellval == '':
                  print("empty string")
                  cellval = peopleorgdf.iloc[r,3]
              if cellval == '':
                  cellval = 'Unstated role'
          if cellval != '':
              addtriple(g, personorgpred[colname], subjval, cellval, rolestr)
  \<close>
\<close>

definition debug_print :: "dataframe \<Rightarrow> nat \<Rightarrow> state \<Rightarrow> outcome" where
  "debug_print df r st =
     reading (iloc df r 0) st (\<lambda>name.
       if name = ''Rebecca Fris'' then
         reading (iloc df r 2) st (\<lambda>a.
         reading (iloc df r 3) st (\<lambda>b.
           Inr (print_line (name @ '' * '' @ a @ '' * '' @ b) st)))
       else Inr st)"

definition peopleorg_column ::
  "globals \<Rightarrow> dataframe \<Rightarrow> nat \<Rightarrow> string \<Rightarrow> string \<Rightarrow> nat \<Rightarrow> state \<Rightarrow> outcome" where
  "peopleorg_column env df r subjval rolestr c st =
     reading (iloc df r c) st (\<lambda>cellval.
       case debug_print df r st of
         Inl e \<Rightarrow> Inl e
       | Inr st1 \<Rightarrow>
           if c = 2 \<and> cellval = '''' then
             (let st2 = print_line ''empty string'' st1 in
              reading (iloc df r 3) st2 (\<lambda>cellval3.
                emit_cell env personorgpred (columns df ! c) subjval rolestr
                  (if cellval3 = '''' then ''Unstated role'' else cellval3) st2))
           else emit_cell env personorgpred (columns df ! c) subjval rolestr cellval st1)"

definition peopleorg_row :: "globals \<Rightarrow> dataframe \<Rightarrow> nat \<Rightarrow> state \<Rightarrow> outcome" where
  "peopleorg_row env df r st =
     reading (iloc df r 0) st (\<lambda>a.
     reading (iloc df r 1) st (\<lambda>b.
     reading (iloc df r 2) st (\<lambda>c.
       let rolestr = a @ b @ c;
           subjval = auxprefix @ ''rol_'' @ makeid rolestr;
           st' = g_add (type_triple subjval role_class) (g_add (label_triple subjval c) st)
       in for_each (peopleorg_column env df r subjval rolestr) [0..<shape1 df] st')))"

definition peopleorgs :: "globals \<Rightarrow> dataframe \<Rightarrow> state \<Rightarrow> outcome" where
  "peopleorgs env peopleorgdf = for_each (peopleorg_row env peopleorgdf) [0..<shape0 peopleorgdf]"

text \<open>
  \<^verbatim>\<open>
  for r in range(peopleprojdf.shape[0]):
      if peopleprojdf.iloc[r,2] == '':
          newrole = 'Participant'
      else:
          newrole = peopleprojdf.iloc[r,2]
      rolestr = peopleprojdf.iloc[r,0] + peopleprojdf.iloc[r,1] + newrole
      subjval = auxprefix + "rol_" + makeid(rolestr)
      g.add((rdflib.URIRef(subjval), rdflib.URIRef(rdfsuri + 'label'), rdflib.Literal(newrole)))
      g.add((rdflib.URIRef(subjval), rdflib.URIRef(rdfuri + 'type'),
             rdflib.URIRef('http://purl.obolibrary.org/obo/BFO_0000023')))
      for c in range(peopleprojdf.shape[1]):
          colname = peopleprojdf.columns[c]
          cellval = peopleprojdf.iloc[r,c]
          if c == 2: # handle the case of no stated role
              if cellval == '':
                  cellval = 'Unstated role'
          if cellval != '':
              addtriple(g, personprojpred[colname], subjval, cellval, rolestr)
  \<close>
\<close>

definition peopleproj_column ::
  "globals \<Rightarrow> dataframe \<Rightarrow> nat \<Rightarrow> string \<Rightarrow> string \<Rightarrow> nat \<Rightarrow> state \<Rightarrow> outcome" where
  "peopleproj_column env df r subjval rolestr c st =
     reading (iloc df r c) st (\<lambda>cellval.
       emit_cell env personprojpred (columns df ! c) subjval rolestr
         (if c = 2 \<and> cellval = '''' then ''Unstated role'' else cellval) st)"

definition peopleproj_row :: "globals \<Rightarrow> dataframe \<Rightarrow> nat \<Rightarrow> state \<Rightarrow> outcome" where
  "peopleproj_row env df r st =
     reading (iloc df r 2) st (\<lambda>role.
       let newrole = (if role = '''' then ''Participant'' else role) in
       reading (iloc df r 0) st (\<lambda>a.
       reading (iloc df r 1) st (\<lambda>b.
         let rolestr = a @ b @ newrole;
             subjval = auxprefix @ ''rol_'' @ makeid rolestr;
             st' = g_add (type_triple subjval role_class)
                     (g_add (label_triple subjval newrole) st)
         in for_each (peopleproj_column env df r subjval rolestr) [0..<shape1 df] st')))"

definition peopleprojs :: "globals \<Rightarrow> dataframe \<Rightarrow> state \<Rightarrow> outcome" where
  "peopleprojs env peopleprojdf = for_each (peopleproj_row env peopleprojdf) [0..<shape0 peopleprojdf]"

text \<open>
  \<^verbatim>\<open>
  for r in range(peopleprogramdf.shape[0]):
      rolestr = peopleorgdf.iloc[r,0] + peopleorgdf.iloc[r,1] + peopleorgdf.iloc[r,2]
      subjval = auxprefix + "rol_" + makeid(rolestr)
      g.add((rdflib.URIRef(subjval), rdflib.URIRef(rdfsuri + 'label'),
             rdflib.Literal(peopleorgdf.iloc[r,2])))
      g.add((rdflib.URIRef(subjval), rdflib.URIRef(rdfuri + 'type'),
             rdflib.URIRef('http://purl.obolibrary.org/obo/BFO_0000023')))
      for c in range(peopleprogramdf.shape[1]):
          colname = peopleprogramdf.columns[c]
          cellval = peopleprogramdf.iloc[r,c]
          if cellval != '':
              addtriple(g, personprogrampred[colname], subjval, cellval, rolestr)
  \<close>
  The role text and the label are read from \<^verbatim>\<open>peopleorgdf\<close>, the columns from
  \<^verbatim>\<open>peopleprogramdf\<close>: the loop takes both tables.
\<close>

definition peopleprogram_row ::
  "globals \<Rightarrow> dataframe \<Rightarrow> dataframe \<Rightarrow> nat \<Rightarrow> state \<Rightarrow> outcome" where
  "peopleprogram_row env peopleorgdf peopleprogramdf r st =
     reading (iloc peopleorgdf r 0) st (\<lambda>a.
     reading (iloc peopleorgdf r 1) st (\<lambda>b.
     reading (iloc peopleorgdf r 2) st (\<lambda>c.
       let rolestr = a @ b @ c;
           subjval = auxprefix @ ''rol_'' @ makeid rolestr;
           st' = g_add (type_triple subjval role_class) (g_add (label_triple subjval c) st)
       in for_each (entity_column env personprogrampred peopleprogramdf r subjval rolestr)
            [0..<shape1 peopleprogramdf] st')))"

definition peopleprograms :: "globals \<Rightarrow> dataframe \<Rightarrow> dataframe \<Rightarrow> state \<Rightarrow> outcome" where
  "peopleprograms env peopleorgdf peopleprogramdf =
     for_each (peopleprogram_row env peopleorgdf peopleprogramdf) [0..<shape0 peopleprogramdf]"

text \<open>
  \<^verbatim>\<open>
  for r in range(orggmdf.shape[0]):
      orgname = orggmdf.iloc[r,0]
      subjval = auxprefix + "org_" + makeid(orgname)
      pred = orggmpred[orggmdf.iloc[r,1]][1]
      objval = auxprefix + "gmt_" + makeid(orggmdf.iloc[r,2])
      g.add((rdflib.URIRef(subjval), rdflib.URIRef(pred), rdflib.URIRef(objval)))
  \<close>
\<close>

definition orggm_row :: "dataframe \<Rightarrow> nat \<Rightarrow> state \<Rightarrow> outcome" where
  "orggm_row df r st =
     reading (iloc df r 0) st (\<lambda>orgname.
       let subjval = auxprefix @ ''org_'' @ makeid orgname in
       reading (iloc df r 1) st (\<lambda>rel.
         case map_of orggmpred rel of
           None \<Rightarrow> Inl (KeyError, st)
         | Some prd \<Rightarrow>
             (let pred = fst (snd prd) in
              reading (iloc df r 2) st (\<lambda>gm.
                let objval = auxprefix @ ''gmt_'' @ makeid gm
                in Inr (g_add (URIRef subjval, URIRef pred, URIRef objval) st)))))"

definition orggms :: "dataframe \<Rightarrow> state \<Rightarrow> outcome" where
  "orggms orggmdf = for_each (orggm_row orggmdf) [0..<shape0 orggmdf]"

text \<open>
  \<^verbatim>\<open>
  for r in range(orgprojgmdf.shape[0]):
      rolestr = orgprojgmdf.iloc[r,2] + orgprojgmdf.iloc[r,3] + orgprojgmdf.iloc[r,4]
      roleval = auxprefix + "rol_" + makeid(rolestr)
      g.add((rdflib.URIRef(roleval), rdflib.URIRef(rdfsuri + 'label'),
             rdflib.Literal(orgprojgmdf.iloc[r,3])))
      g.add((rdflib.URIRef(roleval), rdflib.URIRef(rdfuri + 'type'),
             rdflib.URIRef('http://purl.obolibrary.org/obo/BFO_0000023')))
      gmname = orgprojgmdf.iloc[r,0]
      subjval = auxprefix + "gmt_" + makeid(gmname)
      pred = orggmrelationdict[orgprojgmdf.iloc[r,1]]
      objval = roleval
      g.add((rdflib.URIRef(subjval), rdflib.URIRef(pred), rdflib.URIRef(objval)))
  \<close>
\<close>

definition orgprojgm_row :: "globals \<Rightarrow> dataframe \<Rightarrow> nat \<Rightarrow> state \<Rightarrow> outcome" where
  "orgprojgm_row env df r st =
     reading (iloc df r 2) st (\<lambda>a.
     reading (iloc df r 3) st (\<lambda>b.
     reading (iloc df r 4) st (\<lambda>c.
       let rolestr = a @ b @ c;
           roleval = auxprefix @ ''rol_'' @ makeid rolestr;
           st' = g_add (type_triple roleval role_class) (g_add (label_triple roleval b) st)
       in reading (iloc df r 0) st' (\<lambda>gmname.
            let subjval = auxprefix @ ''gmt_'' @ makeid gmname in
            case env ''orggmrelationdict'' of
              None \<Rightarrow> Inl (NameError, st')
            | Some d \<Rightarrow>
                reading (iloc df r 1) st' (\<lambda>rel.
                  case map_of d rel of
                    None \<Rightarrow> Inl (KeyError, st')
                  | Some pred \<Rightarrow>
                      Inr (g_add (URIRef subjval, URIRef pred, URIRef roleval) st'))))))"

definition orgprojgms :: "globals \<Rightarrow> dataframe \<Rightarrow> state \<Rightarrow> outcome" where
  "orgprojgms env orgprojgmdf = for_each (orgprojgm_row env orgprojgmdf) [0..<shape0 orgprojgmdf]"

subsection \<open>The ingestion pass of \<^verbatim>\<open>creategraph\<close>\<close>

text \<open>
  The tables, under the names \<^verbatim>\<open>creategraph\<close> gives their data frames, and its statements
  from the organizations loop to the tools loop, in the order of the source. The
  vocabulary dictionaries are built before; they are the globals here.
\<close>

record tables =
  orgdf :: dataframe
  progdf :: dataframe
  projdf :: dataframe
  peopledf :: dataframe
  peopleorgdf :: dataframe
  peopleprojdf :: dataframe
  peopleprogramdf :: dataframe
  guidelinesdf :: dataframe
  orggmdf :: dataframe
  orgprojgmdf :: dataframe
  datasetdf :: dataframe
  tooldf :: dataframe

definition role_label :: "state \<Rightarrow> outcome" where
  "role_label st =
     Inr (g_add (URIRef role_class, URIRef (rdfsuri @ ''label''), Literal ''Role'') st)"

definition ingest :: "globals \<Rightarrow> tables \<Rightarrow> state \<Rightarrow> outcome" where
  "ingest env t =
     for_each (\<lambda>statement. statement)
       [organizations env (orgdf t),
        programs env (progdf t),
        projects env (projdf t),
        people env (peopledf t),
        role_label,
        peopleorgs env (peopleorgdf t),
        peopleprojs env (peopleprojdf t),
        peopleprograms env (peopleorgdf t) (peopleprogramdf t),
        guidelines env (guidelinesdf t),
        orggms (orggmdf t),
        orgprojgms env (orgprojgmdf t),
        datasets env (datasetdf t),
        tools env (tooldf t)]"

subsection \<open>Inputs for the examples\<close>

text \<open>The empty graph with nothing printed, and a run with no dictionary bound.\<close>

definition g0 :: state where
  "g0 = \<lparr>graph = [], printed = []\<rparr>"

definition no_globals :: globals where
  "no_globals = (\<lambda>name. None)"


text \<open>A sheet with no column and no row.\<close>

definition empty_df :: dataframe where
  "empty_df = \<lparr>columns = [], cells = []\<rparr>"

text \<open>Globals with a county dictionary of two counties; of one key with a comma; of no key.\<close>

definition county_globals :: globals where
  "county_globals =
     map_of [(''countydict'',
              [(''Yolo'', ''http://example.org/county/Yolo''),
               (''Napa'', ''http://example.org/county/Napa'')])]"

definition comma_globals :: globals where
  "comma_globals = map_of [(''countydict'', [(''A,B'', ''http://example.org/county/AB'')])]"

definition empty_county_globals :: globals where
  "empty_county_globals = map_of [(''countydict'', [])]"

text \<open>The tuple of the \<^verbatim>\<open>County\<close> column of the organizations sheet.\<close>

definition county_prd :: prdetails where
  "county_prd =
     (''v'', ''https://raw.githubusercontent.com/adhollander/FSLschemas/main/fsisupp.owl#inCounty'',
      ''in county'', ''countydict'', ''m'')"

text \<open>
  The tuple of the \<^verbatim>\<open>usecaseMeat\<close> column of the organizations sheet, and the same with
  multiplicity \<^verbatim>\<open>m\<close>.
\<close>

definition usecase_prd :: prdetails where
  "usecase_prd =
     (''d'', ''https://raw.githubusercontent.com/adhollander/FSLschemas/main/fsisupp.owl#usecaseMeat'',
      ''use case: meat'', '''', ''s'')"

definition usecase_multi_prd :: prdetails where
  "usecase_multi_prd =
     (''d'', ''https://raw.githubusercontent.com/adhollander/FSLschemas/main/fsisupp.owl#usecaseMeat'',
      ''use case: meat'', '''', ''m'')"

text \<open>An organizations sheet whose use-case cell is not the flag, alone in the workbook.\<close>

definition flagged_orgdf :: dataframe where
  "flagged_orgdf = \<lparr>columns = [''Organization'', ''usecaseMeat''],
                     cells = [[''Audubon California'', ''yes'']]\<rparr>"

definition flagged_tables :: tables where
  "flagged_tables =
     \<lparr>orgdf = flagged_orgdf, progdf = empty_df, projdf = empty_df, peopledf = empty_df,
      peopleorgdf = empty_df, peopleprojdf = empty_df, peopleprogramdf = empty_df,
      guidelinesdf = empty_df, orggmdf = empty_df, orgprojgmdf = empty_df,
      datasetdf = empty_df, tooldf = empty_df\<rparr>"

text \<open>A person-organization sheet with no role in either role column.\<close>

definition norole_peopleorgdf :: dataframe where
  "norole_peopleorgdf =
     \<lparr>columns = [''Full Name'', ''Organization'', ''Position (Verbatim)'', ''Position (Type)'',
                 ''Year (Start)'', ''Year (End)''],
      cells = [[''Ann Lee'', ''Audubon California'', '''', '''', '''', '''']]\<rparr>"

text \<open>A person-organization sheet and a person-program sheet about different people.\<close>

definition one_peopleorgdf :: dataframe where
  "one_peopleorgdf =
     \<lparr>columns = [''Full Name'', ''Organization'', ''Position (Verbatim)'', ''Position (Type)'',
                 ''Year (Start)'', ''Year (End)''],
      cells = [[''Ann Lee'', ''Audubon California'', ''Director'', '''', '''', '''']]\<rparr>"

definition one_peopleprogramdf :: dataframe where
  "one_peopleprogramdf =
     \<lparr>columns = [''Full Name'', ''Program'', ''Role'', ''Role (Type)'', ''Year (Start)'',
                 ''Year (End)''],
      cells = [[''Bo Diaz'', ''Healthy Soils'', ''Advisor'', '''', '''', '''']]\<rparr>"

text \<open>An organization-guideline sheet whose first row names no known relation.\<close>

definition bad_orggmdf :: dataframe where
  "bad_orggmdf =
     \<lparr>columns = [''Organization'', ''Relation'', ''GM_Name''],
      cells = [[''Audubon California'', ''Ignores'', ''Clean Water Act''],
               [''Audubon California'', ''Implements'', ''Clean Water Act'']]\<rparr>"

definition good_orggmdf :: dataframe where
  "good_orggmdf =
     \<lparr>columns = [''Organization'', ''Relation'', ''GM_Name''],
      cells = [[''Audubon California'', ''Implements'', ''Clean Water Act'']]\<rparr>"

text \<open>
  The predicate dictionaries whose tuples have five places: those that \<open>addtriple\<close> is
  called with, and \<^verbatim>\<open>orgprojgmpred\<close>.
\<close>

definition predicate_dicts :: "(string \<times> prdetails) list list" where
  "predicate_dicts =
     [orgpred, projpred, progpred, personpred, personorgpred, personprojpred,
      personprogrampred, guidelinespred, orgprojgmpred, datasetpred, toolpred]"


text \<open>
  An organizations sheet of two rows: the county cell of the first names a county that is
  not in the dictionary and one that is.
\<close>

definition miss_orgdf :: dataframe where
  "miss_orgdf =
     \<lparr>columns = [''Organization'', ''County'', ''Alias''],
      cells = [[''Audubon California'', ''Atlantis, Yolo'', ''Audubon''],
               [''Napa Land Trust'', ''Napa'', '''']]\<rparr>"

text \<open>A workbook whose only sheet with rows is the organization-guideline sheet above.\<close>

definition bad_tables :: tables where
  "bad_tables =
     \<lparr>orgdf = empty_df, progdf = empty_df, projdf = empty_df, peopledf = empty_df,
      peopleorgdf = empty_df, peopleprojdf = empty_df, peopleprogramdf = empty_df,
      guidelinesdf = empty_df, orggmdf = bad_orggmdf, orgprojgmdf = empty_df,
      datasetdf = empty_df, tooldf = empty_df\<rparr>"

section \<open>The identifier hash\<close>

subsection \<open>Hexadecimal digits\<close>

lemma hexdigit_in: "d < 16 \<Longrightarrow> hexdigit d \<in> set ''0123456789abcdef''"
proof -
  assume "d < 16"
  then have "d \<in> {0,1,2,3,4,5,6,7,8,9,10,11,12,13,14,15}" by (simp; arith)
  then show ?thesis by (auto simp: hexdigit_def)
qed

lemma hex_digits_chars: "set (hex_digits n) \<subseteq> set ''0123456789abcdef''"
proof (induction n rule: hex_digits.induct)
  case (1 n)
  show ?case
  proof (cases "n < 16")
    case True
    then show ?thesis using hexdigit_in[of n] by (subst hex_digits.simps) simp
  next
    case False
    have "n mod 16 < 16" by simp
    then have "hexdigit (n mod 16) \<in> set ''0123456789abcdef''" by (rule hexdigit_in)
    with False 1 show ?thesis by (subst hex_digits.simps) simp
  qed
qed

lemma hex_digits_length: "16 ^ k \<le> n \<Longrightarrow> n < 16 ^ Suc k \<Longrightarrow> length (hex_digits n) = Suc k"
proof (induction k arbitrary: n)
  case 0
  then show ?case by (subst hex_digits.simps) simp
next
  case (Suc k)
  from Suc.prems have ge: "16 \<le> n" 
    by (metis One_nat_def Suc_leI le_trans one_le_numeral one_le_power power_Suc power_one_right mult.commute mult_le_mono1 nat_mult_1) 
  have "16 ^ k \<le> n div 16" using Suc.prems by (simp add: less_eq_div_iff_mult_less_eq)
  moreover have "n div 16 < 16 ^ Suc k" using Suc.prems by (simp add: div_less_iff_less_mult mult.commute)
  ultimately have "length (hex_digits (n div 16)) = Suc k" by (rule Suc.IH)
  with ge show ?case by (subst hex_digits.simps) simp
qed

lemma hex_digits_two: "256 \<le> n \<Longrightarrow>
   hex_digits n = hex_digits (n div 256) @ [hexdigit (n div 16 mod 16), hexdigit (n mod 16)]"
proof -
  assume a: "256 \<le> n"
  then have "\<not> n < 16" by simp
  then have 1: "hex_digits n = hex_digits (n div 16) @ [hexdigit (n mod 16)]"
    by (subst hex_digits.simps) simp
  from a have "\<not> n div 16 < 16" by simp
  then have 2: "hex_digits (n div 16) = hex_digits (n div 16 div 16) @ [hexdigit (n div 16 mod 16)]"
    by (subst hex_digits.simps) simp
  have "n div 16 div 16 = n div 256" by (simp add: div_mult2_eq[symmetric])
  with 1 2 show ?thesis by simp
qed

lemma makeid_top: 
  assumes "2 ^ 28 \<le> unat (crc32 (encode_utf8 s))"
  shows "makeid s = hex_digits (unat (drop_bit 8 (crc32 (encode_utf8 s))))"
    and "length (makeid s) = 6"
proof -
  let ?c = "crc32 (encode_utf8 s)"
  let ?n = "unat ?c"
  have lt: "?n < 2 ^ 32" using unsigned_less[of ?c] by simp
  have d: "unat (drop_bit 8 ?c) = ?n div 256" by (simp add: unat_drop_bit_eq drop_bit_eq_div unat_div)
  have ge: "256 \<le> ?n" using assms by simp
  have "(16::nat) ^ 5 \<le> ?n div 256" using assms by simp
  moreover have "?n div 256 < 16 ^ Suc 5" using lt by simp
  ultimately have len: "length (hex_digits (?n div 256)) = Suc 5" by (rule hex_digits_length)
  have "makeid s = take 6 (hex_digits ?n)" by (simp add: makeid_def slice_def hex_def)
  also have "\<dots> = hex_digits (?n div 256)" using len by (simp add: hex_digits_two[OF ge])
  finally show "makeid s = hex_digits (unat (drop_bit 8 ?c))" using d by simp
  then show "length (makeid s) = 6" using len d by simp
qed

text \<open>
  C1, as corrected. The claim has \<^verbatim>\<open>makeid\<close> return the lower 24 bits of the CRC-32,
  padded with zeros to six characters. The slice \<^verbatim>\<open>[2:8]\<close> keeps the first six digits that
  \<^verbatim>\<open>hex\<close> prints, as the comment above \<^verbatim>\<open>makeid\<close> announces (truncate the last two
  digits): for every string whose CRC-32 has eight hexadecimal digits (is at least \<open>2^28\<close>),
  \<^verbatim>\<open>makeid\<close> returns the upper 24 bits of the CRC-32 of the UTF-8 encoding as exactly six
  lowercase hexadecimal characters. Being a function of its argument alone, it returns the
  same digest at every call.
\<close>

theorem makeid_upper24:
  assumes "2 ^ 28 \<le> unat (crc32 (encode_utf8 s))"
  shows "makeid s = zfill 6 (hex_digits (unat (drop_bit 8 (crc32 (encode_utf8 s)))))
       \<and> length (makeid s) = 6
       \<and> set (makeid s) \<subseteq> set ''0123456789abcdef''"
proof -
  from assms have eq: "makeid s = hex_digits (unat (drop_bit 8 (crc32 (encode_utf8 s))))"
    and len: "length (makeid s) = 6"
    by (rule makeid_top)+
  from eq len have "zfill 6 (hex_digits (unat (drop_bit 8 (crc32 (encode_utf8 s))))) = makeid s"
    by (simp add: zfill_def)
  moreover have "set (makeid s) \<subseteq> set ''0123456789abcdef''"
    unfolding eq by (rule hex_digits_chars)
  ultimately show ?thesis using len by simp
qed

text \<open>The source's own example: \<^verbatim>\<open>makeid('Audubon California')\<close> returns \<^verbatim>\<open>167f6c\<close>.\<close>

theorem makeid_upper24_witness:
  "2 ^ 28 \<le> unat (crc32 (encode_utf8 ''Audubon California''))
   \<and> makeid ''Audubon California'' = ''167f6c''
   \<and> zfill 6 (hex_digits (unat (drop_bit 8 (crc32 (encode_utf8 ''Audubon California''))))) = ''167f6c''"
proof -
  have c: "crc32 (encode_utf8 ''Audubon California'') = 0x167f6c7a"
    by (simp add: crc32_def crc_update_def crc_shift_def encode_utf8_def)
  have h: "2 ^ 28 \<le> unat (crc32 (encode_utf8 ''Audubon California''))"
    unfolding c by simp
  have m: "makeid ''Audubon California'' = ''167f6c''"
    by (simp add: makeid_def hex_def slice_def hex_digits.simps hexdigit_def c)
  from makeid_upper24 [OF h] m h show ?thesis by simp
qed

text \<open>
  Against C1 as stated: the CRC-32 of \<^verbatim>\<open>a\<close> is \<open>0xe8b7be43\<close>, and \<^verbatim>\<open>makeid\<close> returns its
  upper six digits, not the lower six. A checksum below \<open>2^28\<close> is printed with fewer than
  eight digits and none is padded: \<^verbatim>\<open>c\<close> (\<open>0x6b9df6f\<close>) and the empty string (\<open>0x0\<close>).
\<close>

theorem makeid_lower24_counterexample:
  "makeid ''a'' = ''e8b7be'' \<and> hash_spec ''a'' = ''b7be43'' \<and> makeid ''a'' \<noteq> hash_spec ''a''
   \<and> makeid ''c'' = ''6b9df6'' \<and> hash_spec ''c'' = ''b9df6f''
   \<and> makeid '''' = ''0'' \<and> hash_spec '''' = ''000000''"
proof -
  have a: "crc32 (encode_utf8 ''a'') = 0xe8b7be43"
    by (simp add: crc32_def crc_update_def crc_shift_def encode_utf8_def)
  have c: "crc32 (encode_utf8 ''c'') = 0x06b9df6f"
    by (simp add: crc32_def crc_update_def crc_shift_def encode_utf8_def)
  have e: "crc32 (encode_utf8 '''') = 0"
    by (simp add: crc32_def crc_update_def crc_shift_def encode_utf8_def)
  have r: "replicate 5 CHR ''0'' = ''00000''"
    by (simp add: eval_nat_numeral)
  show ?thesis
    by (simp add: makeid_def hash_spec_def zfill_def hex_def slice_def hex_digits.simps
        hexdigit_def a c e r)
qed

section \<open>Rules for evaluation\<close>

lemmas pr_simps = pr0_def pr1_def pr2_def pr3_def pr4_def

lemmas table_eval = iloc_def shape0_def shape1_def reading_def emit_cell_def entity_column_def
  entity_row_def entity_rows_def type_triple_def label_triple_def

lemmas emit_eval = addtriple_def expand_all_def celllist_def cell_body_def pr_simps g_add_def
  print_line_def

lemma upt_small [simp]:
  "[0..<2] = [0, 1]" "[0..<1] = [0]" "[0..<3] = [0, 1, 2]" "[0..<6] = [0, 1, 2, 3, 4, 5]"
  by (simp_all add: upt_rec)

section \<open>The graph only grows\<close>

lemma final_simps [simp]: "final (Inr st) = st" "final (Inl (e, st)) = st"
  by (simp_all add: final_def)

lemma graph_g_add [simp]: "graph (g_add t st) = graph st @ [t]"
  by (simp add: g_add_def)

lemma printed_g_add [simp]: "printed (g_add t st) = printed st"
  by (simp add: g_add_def)

lemma graph_print_line [simp]: "graph (print_line l st) = graph st"
  by (simp add: print_line_def)

lemma printed_print_line [simp]: "printed (print_line l st) = printed st @ [l]"
  by (simp add: print_line_def)

lemma cell_body_grows:
  "cell_body env prd subj lbl obj st cell = Inr (obj', st') \<Longrightarrow> prefix (graph st) (graph st')"
  "cell_body env prd subj lbl obj st cell = Inl (e, st') \<Longrightarrow> st' = st"
  by (auto simp: cell_body_def Let_def split: if_splits option.splits)

lemma cells_loop_grows:
  "prefix (graph st) (graph (final (cells_loop env prd subj lbl obj st vs)))"
proof (induction vs arbitrary: obj st)
  case Nil
  show ?case by simp
next
  case (Cons cell rest)
  show ?case
  proof (cases "cell_body env prd subj lbl obj st cell")
    case (Inl a)
    then show ?thesis by (cases a) (auto dest: cell_body_grows)
  next
    case (Inr b)
    obtain obj' st' where b: "b = (obj', st')" by (cases b)
    with Inr have "prefix (graph st) (graph st')" by (auto dest: cell_body_grows)
    moreover have "prefix (graph st') (graph (final (cells_loop env prd subj lbl obj' st' rest)))"
      by (rule Cons.IH)
    ultimately show ?thesis using Inr b by (auto intro: prefix_order.trans)
  qed
qed

lemma addtriple_grows:
  "prefix (graph st) (graph (final (addtriple env st prd subjval cellval lbl)))"
  by (auto simp: addtriple_def cells_loop_grows split: sum.splits)

lemma emit_cell_grows:
  "prefix (graph st) (graph (final (emit_cell env schema colname subjval lbl cellval st)))"
  by (auto simp: emit_cell_def addtriple_grows split: option.splits)

lemma entity_column_grows:
  "prefix (graph st) (graph (final (entity_column env schema df r subjval lbl c st)))"
  by (auto simp: entity_column_def emit_cell_grows split: sum.splits)



section \<open>Loops over lists and over indices\<close>

lemma for_each_append:
  "for_each body (xs @ ys) st =
     (case for_each body xs st of Inl e \<Rightarrow> Inl e | Inr st' \<Rightarrow> for_each body ys st')"
  by (induction xs arbitrary: st) (auto split: sum.splits)














section \<open>Entity tables\<close>



section \<open>Splitting, joining and stripping\<close>

lemma split_comma_not_Nil [simp]: "split_comma s \<noteq> []"
  by (induction s) auto

lemma split_comma_no_comma: "CHR '','' \<notin> set k \<Longrightarrow> split_comma k = [k]"
  by (induction k) auto

lemma split_comma_append:
  "CHR '','' \<notin> set k \<Longrightarrow> split_comma (k @ CHR '','' # s) = k # split_comma s"
  by (induction k) auto



lemma split_comma_join:
  "ks \<noteq> [] \<Longrightarrow> \<forall>k\<in>set ks. CHR '','' \<notin> set k \<Longrightarrow> split_comma (join '','' ks) = ks"
proof (induction ks rule: induct_list012)
  case 1
  then show ?case by simp
next
  case (2 x)
  then show ?case by (simp add: split_comma_no_comma)
next
  case (3 x y ys)
  then show ?case by (simp add: split_comma_append)
qed




lemma strip_left_id: "strip_one ws s = None \<Longrightarrow> strip_left ws s = s"
  by (subst strip_left.simps) simp





lemma strip_id:
  "strip_one whitespace s = None \<Longrightarrow> strip_one (map rev whitespace) (rev s) = None \<Longrightarrow> strip s = s"
  by (simp add: strip_def lstrip_def rstrip_def strip_left_id)

lemmas strip_eval = strip_def lstrip_def rstrip_def strip_left.simps whitespace_def

lemma strip_flag [simp]: "strip ''X'' = ''X''" "strip ''x'' = ''x''"
  by (simp_all add: strip_eval)

section \<open>The triple emitter\<close>

lemma expand_all_other: "cellval \<noteq> ''All'' \<Longrightarrow> expand_all env prd cellval = Inr cellval"
  by (simp add: expand_all_def)

lemma celllist_flag:
  "celllist prd ''X'' = [''X'']" "celllist prd ''x'' = [''x'']"
  by (simp_all add: celllist_def)

text \<open>
  C3, as corrected. The claim takes the object from the static table of use cases
  (\<open>usecases\<close>); no statement reads that table. For a \<^verbatim>\<open>d\<close> tuple whose URI contains
  \<^verbatim>\<open>usecase\<close> and a cell \<^verbatim>\<open>X\<close> or \<^verbatim>\<open>x\<close>, \<open>addtriple\<close> adds exactly one triple: its
  predicate is the generic use-case predicate (\<open>fslsprefix\<close> followed by \<^verbatim>\<open>usecase\<close>), its
  object is the URI of the tuple itself, as a URI reference; no literal is added.
\<close>

theorem usecase_flag_rewrite:
  assumes "pr0 prd = ''d''" and "contains ''usecase'' (pr1 prd)"
    and "cellval = ''X'' \<or> cellval = ''x''"
  shows "addtriple env st prd subjval cellval subjectstr =
           Inr (g_add (URIRef subjval, URIRef (fslsprefix @ ''usecase''), URIRef (pr1 prd)) st)
       \<and> graph (final (addtriple env st prd subjval cellval subjectstr)) =
           graph st @ [(URIRef subjval, URIRef (fslsprefix @ ''usecase''), URIRef (pr1 prd))]
       \<and> printed (final (addtriple env st prd subjval cellval subjectstr)) = printed st"
proof -
  from assms(3) have e: "expand_all env prd cellval = Inr cellval"
    by (auto simp: expand_all_other)
  from assms(3) have l: "celllist prd cellval = [cellval]"
    by (auto simp: celllist_flag)
  have "addtriple env st prd subjval cellval subjectstr =
          Inr (g_add (URIRef subjval, URIRef (fslsprefix @ ''usecase''), URIRef (pr1 prd)) st)"
    using assms by (auto simp: addtriple_def e l cell_body_def)
  then show ?thesis by simp
qed

theorem usecase_flag_rewrite_witness:
  "pr0 usecase_prd = ''d'' \<and> contains ''usecase'' (pr1 usecase_prd)
   \<and> map_of orgpred ''usecaseMeat'' = Some usecase_prd
   \<and> addtriple no_globals g0 usecase_prd ''s'' ''X'' ''l'' =
       Inr \<lparr>graph = [(URIRef ''s'',
                URIRef ''https://raw.githubusercontent.com/adhollander/FSLschemas/main/fsisupp.owl#usecase'',
                URIRef ''https://raw.githubusercontent.com/adhollander/FSLschemas/main/fsisupp.owl#usecaseMeat'')],
            printed = []\<rparr>"
proof -
  have a: "pr0 usecase_prd = ''d''" by (simp add: usecase_prd_def pr_simps)
  have b: "contains ''usecase'' (pr1 usecase_prd)" by (simp add: usecase_prd_def pr_simps)
  have c: "map_of orgpred ''usecaseMeat'' = Some usecase_prd"
    by (simp add: orgpred_def usecase_prd_def)
  from usecase_flag_rewrite [OF a b, of "''X''" no_globals g0 "''s''" "''l''"]
  have "addtriple no_globals g0 usecase_prd ''s'' ''X'' ''l'' =
       Inr \<lparr>graph = [(URIRef ''s'',
                URIRef ''https://raw.githubusercontent.com/adhollander/FSLschemas/main/fsisupp.owl#usecase'',
                URIRef ''https://raw.githubusercontent.com/adhollander/FSLschemas/main/fsisupp.owl#usecaseMeat'')],
            printed = []\<rparr>"
    by (simp add: g_add_def g0_def fslsprefix_def usecase_prd_def pr_simps)
  with a b c show ?thesis by simp
qed

text \<open>
  Against C3 as stated: for the \<^verbatim>\<open>usecaseMeat\<close> column of the organizations sheet the object
  added is \<^verbatim>\<open>fsisupp.owl#usecaseMeat\<close>, the URI of the column's tuple, where the table of
  use cases has \<^verbatim>\<open>CA_PPODterms.ttl#usecaseMeat\<close>.
\<close>

theorem usecase_table_counterexample:
  "map_of orgpred ''usecaseMeat'' = Some usecase_prd
   \<and> map_of usecases ''usecaseMeat'' =
       Some (''https://raw.githubusercontent.com/adhollander/FSLschemas/main/CA_PPODterms.ttl#usecaseMeat'',
             ''Meat use case'')
   \<and> graph (final (addtriple no_globals g0 usecase_prd ''s'' ''X'' ''l'')) =
       [(URIRef ''s'',
         URIRef ''https://raw.githubusercontent.com/adhollander/FSLschemas/main/fsisupp.owl#usecase'',
         URIRef ''https://raw.githubusercontent.com/adhollander/FSLschemas/main/fsisupp.owl#usecaseMeat'')]
   \<and> URIRef ''https://raw.githubusercontent.com/adhollander/FSLschemas/main/fsisupp.owl#usecaseMeat''
       \<noteq> URIRef ''https://raw.githubusercontent.com/adhollander/FSLschemas/main/CA_PPODterms.ttl#usecaseMeat''"
proof -
  have c: "map_of orgpred ''usecaseMeat'' = Some usecase_prd"
    by (simp add: orgpred_def usecase_prd_def)
  have u: "map_of usecases ''usecaseMeat'' =
       Some (''https://raw.githubusercontent.com/adhollander/FSLschemas/main/CA_PPODterms.ttl#usecaseMeat'',
             ''Meat use case'')"
    by (simp add: usecases_def)
  have g: "graph (final (addtriple no_globals g0 usecase_prd ''s'' ''X'' ''l'')) =
       [(URIRef ''s'',
         URIRef ''https://raw.githubusercontent.com/adhollander/FSLschemas/main/fsisupp.owl#usecase'',
         URIRef ''https://raw.githubusercontent.com/adhollander/FSLschemas/main/fsisupp.owl#usecaseMeat'')]"
    by (simp add: addtriple_def expand_all_def celllist_def cell_body_def usecase_prd_def pr_simps
        g0_def fslsprefix_def)
  from c u g show ?thesis by simp
qed

subsection \<open>Vocabulary references\<close>

lemma cell_body_vocab_miss:
  assumes "pr0 prd = ''v''" and "env (pr3 prd) = Some d" and "map_of d cell = None"
  shows "cell_body env prd subj lbl obj st cell =
           Inr (obj, print_line (lbl @ '': '' @ cell @ '' not in '' @ pr3 prd) st)"
  using assms by (simp add: cell_body_def)

lemma cells_loop_vocab_misses:
  assumes "pr0 prd = ''v''" and "env (pr3 prd) = Some d"
  shows "\<forall>v\<in>set vs. map_of d v = None \<Longrightarrow>
         cells_loop env prd subj lbl obj st vs =
           Inr (st\<lparr>printed := printed st @ map (\<lambda>v. lbl @ '': '' @ v @ '' not in '' @ pr3 prd) vs\<rparr>)"
proof (induction vs arbitrary: st)
  case Nil
  show ?case by simp
next
  case (Cons v vs)
  then have "map_of d v = None" by simp
  then have "cell_body env prd subj lbl obj st v =
           Inr (obj, print_line (lbl @ '': '' @ v @ '' not in '' @ pr3 prd) st)"
    using assms by (simp add: cell_body_vocab_miss)
  moreover have "cells_loop env prd subj lbl obj
      (print_line (lbl @ '': '' @ v @ '' not in '' @ pr3 prd) st) vs =
      Inr ((print_line (lbl @ '': '' @ v @ '' not in '' @ pr3 prd) st)
        \<lparr>printed := printed (print_line (lbl @ '': '' @ v @ '' not in '' @ pr3 prd) st)
           @ map (\<lambda>v. lbl @ '': '' @ v @ '' not in '' @ pr3 prd) vs\<rparr>)"
    using Cons by simp
  ultimately show ?case by (simp add: print_line_def)
qed

lemma cells_loop_vocab:
  assumes "pr0 prd = ''v''" and "env (pr3 prd) = Some d"
  shows "cells_loop env prd subj lbl obj st vs = Inr (vocab_adds st subj lbl prd d vs)"
proof (induction vs arbitrary: obj st)
  case Nil
  show ?case by (simp add: vocab_adds_def vocab_triples_def vocab_lines_def)
next
  case (Cons v vs)
  show ?case
  proof (cases "map_of d v")
    case None
    then have "cell_body env prd subj lbl obj st v =
           Inr (obj, print_line (lbl @ '': '' @ v @ '' not in '' @ pr3 prd) st)"
      using assms by (simp add: cell_body_def)
    then show ?thesis
      using Cons None
      by (simp add: vocab_adds_def vocab_triples_def vocab_lines_def print_line_def)
  next
    case (Some u)
    then have "cell_body env prd subj lbl obj st v =
           Inr (Some (URIRef u), g_add (subj, URIRef (pr1 prd), URIRef u) st)"
      using assms by (simp add: cell_body_def)
    then show ?thesis
      using Cons Some
      by (simp add: vocab_adds_def vocab_triples_def vocab_lines_def g_add_def)
  qed
qed

lemma expand_all_vocab:
  assumes "env (pr3 prd) = Some d"
  shows "\<exists>v. expand_all env prd cellval = Inr v"
  using assms by (auto simp: expand_all_def)

lemma addtriple_vocab:
  assumes "pr0 prd = ''v''" and "env (pr3 prd) = Some d" and "expand_all env prd cellval = Inr v"
  shows "addtriple env st prd subjval cellval lbl =
         Inr (vocab_adds st (URIRef subjval) lbl prd d (celllist prd v))"
  using assms by (simp add: addtriple_def cells_loop_vocab)

lemma entity_column_vocab:
  assumes "pr0 prd = ''v''" and "env (pr3 prd) = Some d" and "expand_all env prd cellval = Inr v"
    and "iloc df r c = Inr cellval" and "cellval \<noteq> ''''"
    and "map_of schema (columns df ! c) = Some prd"
  shows "entity_column env schema df r subjval lbl c st =
         Inr (vocab_adds st (URIRef subjval) lbl prd d (celllist prd v))"
  using assms by (simp add: entity_column_def emit_cell_def addtriple_vocab)

lemma vocab_miss_split:
  assumes "map_of d cell = None"
  shows "vocab_triples subj prd d (before @ cell # rest) =
           vocab_triples subj prd d before @ vocab_triples subj prd d rest"
    and "vocab_lines lbl prd d (before @ cell # rest) =
           vocab_lines lbl prd d before @ [lbl @ '': '' @ cell @ '' not in '' @ pr3 prd]
           @ vocab_lines lbl prd d rest"
  using assms by (simp_all add: vocab_triples_def vocab_lines_def)

lemma upt_split: "k < n \<Longrightarrow> [0..<n] = [0..<k] @ k # [Suc k..<n]"
  by (metis less_imp_le_nat upt_add_eq_append le_add_diff_inverse upt_conv_Cons zero_le)

lemma entity_row_run:
  assumes "iloc df r 0 = Inr name" and "map_of PPODrefs cls = Some clsuri"
  shows "entity_row env schema pfx cls type_first df r st =
         for_each (entity_column env schema df r (auxprefix @ pfx @ makeid name) name)
           [0..<shape1 df] (first_triples type_first (auxprefix @ pfx @ makeid name) clsuri name st)"
  using assms by (simp add: entity_row_def first_triples_def Let_def)

lemma entity_rows_after_miss:
  assumes v: "pr0 prd = ''v''" and d: "env (pr3 prd) = Some d"
    and r: "r < shape0 df" and c: "c < shape1 df"
    and name: "iloc df r 0 = Inr name" and cls: "map_of PPODrefs cls = Some clsuri"
    and cell: "iloc df r c = Inr cellval" "cellval \<noteq> ''''"
    and prd: "map_of schema (columns df ! c) = Some prd"
    and e: "expand_all env prd cellval = Inr v"
    and rows: "for_each (entity_row env schema pfx cls type_first df) [0..<r] st = Inr s"
    and before: "for_each (entity_column env schema df r (auxprefix @ pfx @ makeid name) name)
                   [0..<c] (first_triples type_first (auxprefix @ pfx @ makeid name) clsuri name s)
                 = Inr s1"
    and after: "for_each (entity_column env schema df r (auxprefix @ pfx @ makeid name) name)
                   [Suc c..<shape1 df]
                   (vocab_adds s1 (URIRef (auxprefix @ pfx @ makeid name)) name prd d
                      (celllist prd v))
                 = Inr s2"
  shows "entity_rows env schema pfx cls type_first df st =
         for_each (entity_row env schema pfx cls type_first df) [Suc r..<shape0 df] s2"
proof -
  let ?col = "entity_column env schema df r (auxprefix @ pfx @ makeid name) name"
  have col: "?col c s1 = Inr (vocab_adds s1 (URIRef (auxprefix @ pfx @ makeid name)) name prd d
                      (celllist prd v))"
    using v d e cell prd by (rule entity_column_vocab)
  have "entity_row env schema pfx cls type_first df r s =
        for_each ?col ([0..<c] @ c # [Suc c..<shape1 df])
          (first_triples type_first (auxprefix @ pfx @ makeid name) clsuri name s)"
    using entity_row_run [OF name cls] upt_split [OF c] by simp
  also have "\<dots> = Inr s2"
    using before col after by (simp add: for_each_append)
  finally have row: "entity_row env schema pfx cls type_first df r s = Inr s2" .
  have "entity_rows env schema pfx cls type_first df st =
        for_each (entity_row env schema pfx cls type_first df)
          ([0..<r] @ r # [Suc r..<shape0 df]) st"
    using upt_split [OF r] by (simp add: entity_rows_def)
  also have "\<dots> = for_each (entity_row env schema pfx cls type_first df) [Suc r..<shape0 df] s2"
    using rows row by (simp add: for_each_append)
  finally show ?thesis .
qed

text \<open>
  C6. A value of a vocabulary column (\<^verbatim>\<open>v\<close>) that is not a key of the dictionary the tuple
  names adds no triple and prints exactly the line
  \<^verbatim>\<open><subjectstr>: <value> not in <dictionary name>\<close>; the loop body returns normally (the
  \<open>KeyError\<close> is caught). The values of the cell before and after it are processed as they
  would be without it: the cell as a whole returns normally, having added one triple for
  each value that is a key and printed one line for each value that is not. The row goes
  on with its next columns from that state, and when the other columns of the row raise
  nothing, the loop over the table goes on with the rows after it.
\<close>

theorem vocab_miss_isolated:
  assumes "pr0 prd = ''v''" and "env (pr3 prd) = Some d" and "map_of d cell = None"
  shows "cell_body env prd subj lbl obj st cell =
           Inr (obj, print_line (lbl @ '': '' @ cell @ '' not in '' @ pr3 prd) st)
       \<and> graph (print_line (lbl @ '': '' @ cell @ '' not in '' @ pr3 prd) st) = graph st
       \<and> printed (print_line (lbl @ '': '' @ cell @ '' not in '' @ pr3 prd) st) =
           printed st @ [lbl @ '': '' @ cell @ '' not in '' @ pr3 prd]
       \<and> cells_loop env prd subj lbl obj st (cell # rest) =
           cells_loop env prd subj lbl obj
             (print_line (lbl @ '': '' @ cell @ '' not in '' @ pr3 prd) st) rest
       \<and> ((\<forall>v\<in>set rest. map_of d v = None) \<longrightarrow>
            cells_loop env prd subj lbl obj st (cell # rest) =
              Inr (st\<lparr>printed := printed st
                     @ map (\<lambda>v. lbl @ '': '' @ v @ '' not in '' @ pr3 prd) (cell # rest)\<rparr>))
       \<and> cells_loop env prd subj lbl obj st (before @ cell # rest) =
           Inr (vocab_adds st subj lbl prd d (before @ cell # rest))
       \<and> vocab_triples subj prd d (before @ cell # rest) =
           vocab_triples subj prd d before @ vocab_triples subj prd d rest
       \<and> vocab_lines lbl prd d (before @ cell # rest) =
           vocab_lines lbl prd d before @ [lbl @ '': '' @ cell @ '' not in '' @ pr3 prd]
           @ vocab_lines lbl prd d rest
       \<and> (expand_all env prd cellval = Inr v \<and> cell \<in> set (celllist prd v) \<longrightarrow>
            addtriple env st prd subjval cellval lbl =
              Inr (vocab_adds st (URIRef subjval) lbl prd d (celllist prd v)))
       \<and> (expand_all env prd cellval = Inr v \<and> cell \<in> set (celllist prd v)
            \<and> iloc df r c = Inr cellval \<and> cellval \<noteq> ''''
            \<and> map_of schema (columns df ! c) = Some prd \<longrightarrow>
            entity_column env schema df r subjval lbl c st =
              Inr (vocab_adds st (URIRef subjval) lbl prd d (celllist prd v))
          \<and> for_each (entity_column env schema df r subjval lbl) (c # later) st =
              for_each (entity_column env schema df r subjval lbl) later
                (vocab_adds st (URIRef subjval) lbl prd d (celllist prd v)))
       \<and> (expand_all env prd cellval = Inr v \<and> cell \<in> set (celllist prd v)
            \<and> iloc df r c = Inr cellval \<and> cellval \<noteq> ''''
            \<and> map_of schema (columns df ! c) = Some prd
            \<and> r < shape0 df \<and> c < shape1 df
            \<and> iloc df r 0 = Inr name \<and> map_of PPODrefs cls = Some clsuri
            \<and> for_each (entity_row env schema pfx cls type_first df) [0..<r] st = Inr s
            \<and> for_each (entity_column env schema df r (auxprefix @ pfx @ makeid name) name)
                 [0..<c] (first_triples type_first (auxprefix @ pfx @ makeid name) clsuri name s)
               = Inr s1
            \<and> for_each (entity_column env schema df r (auxprefix @ pfx @ makeid name) name)
                 [Suc c..<shape1 df]
                 (vocab_adds s1 (URIRef (auxprefix @ pfx @ makeid name)) name prd d
                    (celllist prd v))
               = Inr s2 \<longrightarrow>
            entity_rows env schema pfx cls type_first df st =
              for_each (entity_row env schema pfx cls type_first df) [Suc r..<shape0 df] s2)"
proof -
  have 1: "cell_body env prd subj lbl obj st cell =
           Inr (obj, print_line (lbl @ '': '' @ cell @ '' not in '' @ pr3 prd) st)"
    using assms by (rule cell_body_vocab_miss)
  have 2: "(\<forall>v\<in>set rest. map_of d v = None) \<longrightarrow>
            cells_loop env prd subj lbl obj st (cell # rest) =
              Inr (st\<lparr>printed := printed st
                     @ map (\<lambda>v. lbl @ '': '' @ v @ '' not in '' @ pr3 prd) (cell # rest)\<rparr>)"
  proof
    assume "\<forall>v\<in>set rest. map_of d v = None"
    with assms(3) have "\<forall>v\<in>set (cell # rest). map_of d v = None" by simp
    then show "cells_loop env prd subj lbl obj st (cell # rest) =
              Inr (st\<lparr>printed := printed st
                     @ map (\<lambda>v. lbl @ '': '' @ v @ '' not in '' @ pr3 prd) (cell # rest)\<rparr>)"
      using cells_loop_vocab_misses [where prd = prd and env = env and d = d and vs = "cell # rest"]
        assms(1,2) by blast
  qed
  have 3: "cells_loop env prd subj lbl obj st (before @ cell # rest) =
           Inr (vocab_adds st subj lbl prd d (before @ cell # rest))"
    using assms(1,2) by (rule cells_loop_vocab)
  note 4 = vocab_miss_split(1) [OF assms(3), where subj = subj and prd = prd
      and before = before and rest = rest]
  note 5 = vocab_miss_split(2) [OF assms(3), where lbl = lbl and prd = prd
      and before = before and rest = rest]
  have 6: "expand_all env prd cellval = Inr v \<and> cell \<in> set (celllist prd v) \<longrightarrow>
            addtriple env st prd subjval cellval lbl =
              Inr (vocab_adds st (URIRef subjval) lbl prd d (celllist prd v))"
    using assms(1,2) by (simp add: addtriple_vocab)
  have 7: "expand_all env prd cellval = Inr v \<and> cell \<in> set (celllist prd v)
            \<and> iloc df r c = Inr cellval \<and> cellval \<noteq> ''''
            \<and> map_of schema (columns df ! c) = Some prd \<longrightarrow>
            entity_column env schema df r subjval lbl c st =
              Inr (vocab_adds st (URIRef subjval) lbl prd d (celllist prd v))
          \<and> for_each (entity_column env schema df r subjval lbl) (c # later) st =
              for_each (entity_column env schema df r subjval lbl) later
                (vocab_adds st (URIRef subjval) lbl prd d (celllist prd v))"
  proof
    assume h: "expand_all env prd cellval = Inr v \<and> cell \<in> set (celllist prd v)
            \<and> iloc df r c = Inr cellval \<and> cellval \<noteq> []
            \<and> map_of schema (columns df ! c) = Some prd"
    then have e: "expand_all env prd cellval = Inr v" and i: "iloc df r c = Inr cellval"
      and n: "cellval \<noteq> []" and m: "map_of schema (columns df ! c) = Some prd"
      by simp_all
    have col: "entity_column env schema df r subjval lbl c st =
              Inr (vocab_adds st (URIRef subjval) lbl prd d (celllist prd v))"
      using assms(1,2) e i n m by (rule entity_column_vocab)
    then show "entity_column env schema df r subjval lbl c st =
              Inr (vocab_adds st (URIRef subjval) lbl prd d (celllist prd v))
          \<and> for_each (entity_column env schema df r subjval lbl) (c # later) st =
              for_each (entity_column env schema df r subjval lbl) later
                (vocab_adds st (URIRef subjval) lbl prd d (celllist prd v))"
      by simp
  qed
  have 8: "expand_all env prd cellval = Inr v \<and> cell \<in> set (celllist prd v)
            \<and> iloc df r c = Inr cellval \<and> cellval \<noteq> ''''
            \<and> map_of schema (columns df ! c) = Some prd
            \<and> r < shape0 df \<and> c < shape1 df
            \<and> iloc df r 0 = Inr name \<and> map_of PPODrefs cls = Some clsuri
            \<and> for_each (entity_row env schema pfx cls type_first df) [0..<r] st = Inr s
            \<and> for_each (entity_column env schema df r (auxprefix @ pfx @ makeid name) name)
                 [0..<c] (first_triples type_first (auxprefix @ pfx @ makeid name) clsuri name s)
               = Inr s1
            \<and> for_each (entity_column env schema df r (auxprefix @ pfx @ makeid name) name)
                 [Suc c..<shape1 df]
                 (vocab_adds s1 (URIRef (auxprefix @ pfx @ makeid name)) name prd d
                    (celllist prd v))
               = Inr s2 \<longrightarrow>
            entity_rows env schema pfx cls type_first df st =
              for_each (entity_row env schema pfx cls type_first df) [Suc r..<shape0 df] s2"
    using entity_rows_after_miss [where prd = prd and env = env and d = d and r = r and df = df
        and c = c and name = name and cls = cls and clsuri = clsuri and cellval = cellval
        and schema = schema and v = v and pfx = pfx and type_first = type_first and st = st
        and s = s and ?s1.0 = s1 and ?s2.0 = s2] assms(1,2)
    by blast
  from 1 2 3 4 5 6 7 8 show ?thesis by simp
qed


text \<open>
  An organizations sheet of two rows: the county cell \<^verbatim>\<open>Atlantis, Yolo\<close> of the first row
  prints one line for the county that is not in the dictionary and adds the triple of the
  county that is; the alias after it and the second row are ingested.
\<close>

theorem vocab_miss_isolated_witness:
  "pr0 county_prd = ''v''
   \<and> county_globals (pr3 county_prd) =
       Some [(''Yolo'', ''http://example.org/county/Yolo''),
             (''Napa'', ''http://example.org/county/Napa'')]
   \<and> map_of [(''Yolo'', ''http://example.org/county/Yolo''),
              (''Napa'', ''http://example.org/county/Napa'')] ''Atlantis'' = None
   \<and> celllist county_prd ''Atlantis, Yolo'' = [''Atlantis'', ''Yolo'']
   \<and> cell_body county_globals county_prd (URIRef ''s'') ''Audubon'' None g0 ''Atlantis'' =
       Inr (None, \<lparr>graph = [], printed = [''Audubon: Atlantis not in countydict'']\<rparr>)
   \<and> addtriple county_globals g0 county_prd ''s'' ''Atlantis, Yolo'' ''Audubon'' =
       Inr \<lparr>graph = [(URIRef ''s'', URIRef (pr1 county_prd),
                       URIRef ''http://example.org/county/Yolo'')],
            printed = [''Audubon: Atlantis not in countydict'']\<rparr>
   \<and> organizations county_globals miss_orgdf g0 =
       Inr \<lparr>graph =
              [type_triple (auxprefix @ ''org_'' @ makeid ''Audubon California'')
                 ''http://xmlns.com/foaf/0.1/Organization'',
               label_triple (auxprefix @ ''org_'' @ makeid ''Audubon California'')
                 ''Audubon California'',
               (URIRef (auxprefix @ ''org_'' @ makeid ''Audubon California''),
                URIRef ''http://purl.org/dc/terms/title'', Literal ''Audubon California''),
               (URIRef (auxprefix @ ''org_'' @ makeid ''Audubon California''),
                URIRef (pr1 county_prd), URIRef ''http://example.org/county/Yolo''),
               (URIRef (auxprefix @ ''org_'' @ makeid ''Audubon California''),
                URIRef ''http://www.w3.org/2004/02/skos/core#altLabel'', Literal ''Audubon''),
               type_triple (auxprefix @ ''org_'' @ makeid ''Napa Land Trust'')
                 ''http://xmlns.com/foaf/0.1/Organization'',
               label_triple (auxprefix @ ''org_'' @ makeid ''Napa Land Trust'')
                 ''Napa Land Trust'',
               (URIRef (auxprefix @ ''org_'' @ makeid ''Napa Land Trust''),
                URIRef ''http://purl.org/dc/terms/title'', Literal ''Napa Land Trust''),
               (URIRef (auxprefix @ ''org_'' @ makeid ''Napa Land Trust''),
                URIRef (pr1 county_prd), URIRef ''http://example.org/county/Napa'')],
            printed = [''Audubon California: Atlantis not in countydict'']\<rparr>"
proof -
  let ?d = "[(''Yolo'', ''http://example.org/county/Yolo''),
             (''Napa'', ''http://example.org/county/Napa'')]"
  let ?S = "auxprefix @ ''org_'' @ makeid ''Audubon California''"
  let ?N = "auxprefix @ ''org_'' @ makeid ''Napa Land Trust''"
  let ?uri = "''http://xmlns.com/foaf/0.1/Organization''"
  let ?line = "''Audubon California: Atlantis not in countydict''"
  let ?s1 = "\<lparr>graph = [type_triple ?S ?uri, label_triple ?S ''Audubon California'',
                        (URIRef ?S, URIRef ''http://purl.org/dc/terms/title'',
                         Literal ''Audubon California'')],
              printed = []\<rparr>"
  let ?s1' = "\<lparr>graph = [type_triple ?S ?uri, label_triple ?S ''Audubon California'',
                        (URIRef ?S, URIRef ''http://purl.org/dc/terms/title'',
                         Literal ''Audubon California''),
                        (URIRef ?S, URIRef (pr1 county_prd),
                         URIRef ''http://example.org/county/Yolo'')],
              printed = [?line]\<rparr>"
  let ?s2 = "\<lparr>graph = [type_triple ?S ?uri, label_triple ?S ''Audubon California'',
                        (URIRef ?S, URIRef ''http://purl.org/dc/terms/title'',
                         Literal ''Audubon California''),
                        (URIRef ?S, URIRef (pr1 county_prd),
                         URIRef ''http://example.org/county/Yolo''),
                        (URIRef ?S, URIRef ''http://www.w3.org/2004/02/skos/core#altLabel'',
                         Literal ''Audubon'')],
              printed = [?line]\<rparr>"
  have a: "pr0 county_prd = ''v''" by (simp add: county_prd_def pr_simps)
  have b: "county_globals (pr3 county_prd) = Some ?d"
    by (simp add: county_prd_def pr_simps county_globals_def)
  have c: "map_of ?d ''Atlantis'' = None" by simp
  have l: "celllist county_prd ''Atlantis, Yolo'' = [''Atlantis'', ''Yolo'']"
    by (simp add: celllist_def county_prd_def pr_simps strip_eval)
  have e: "expand_all county_globals county_prd ''Atlantis, Yolo'' = Inr ''Atlantis, Yolo''"
    by (simp add: expand_all_def)
  have mem: "''Atlantis'' \<in> set (celllist county_prd ''Atlantis, Yolo'')" by (simp add: l)
  have i: "iloc miss_orgdf 0 1 = Inr ''Atlantis, Yolo''"
    by (simp add: iloc_def shape0_def shape1_def miss_orgdf_def)
  have ne: "''Atlantis, Yolo'' \<noteq> ''''" by simp
  have m: "map_of orgpred (columns miss_orgdf ! 1) = Some county_prd"
    by (simp add: miss_orgdf_def orgpred_def county_prd_def)
  have sh: "0 < shape0 miss_orgdf" "1 < shape1 miss_orgdf"
    by (simp_all add: shape0_def shape1_def miss_orgdf_def)
  have n: "iloc miss_orgdf 0 0 = Inr ''Audubon California''"
    by (simp add: iloc_def shape0_def shape1_def miss_orgdf_def)
  have cl: "map_of PPODrefs ''Organizations'' = Some ?uri" by (simp add: PPODrefs_def)
  have rows: "for_each (entity_row county_globals orgpred ''org_'' ''Organizations'' True miss_orgdf)
                [0..<0] g0 = Inr g0" by simp
  have before: "for_each (entity_column county_globals orgpred miss_orgdf 0 ?S ''Audubon California'')
                  [0..<1] (first_triples True ?S ?uri ''Audubon California'' g0) = Inr ?s1"
    by (simp add: table_eval emit_eval miss_orgdf_def orgpred_def first_triples_def g0_def Let_def)
  have s1': "vocab_adds ?s1 (URIRef ?S) ''Audubon California'' county_prd ?d
               (celllist county_prd ''Atlantis, Yolo'') = ?s1'"
    unfolding l
    by (simp add: vocab_adds_def vocab_triples_def vocab_lines_def county_prd_def pr_simps)
  have u3: "[Suc 1..<shape1 miss_orgdf] = [2]"
    by (simp add: shape1_def miss_orgdf_def upt_rec)
  have after: "for_each (entity_column county_globals orgpred miss_orgdf 0 ?S ''Audubon California'')
                  [Suc 1..<shape1 miss_orgdf]
                  (vocab_adds ?s1 (URIRef ?S) ''Audubon California'' county_prd ?d
                     (celllist county_prd ''Atlantis, Yolo'')) = Inr ?s2"
    unfolding s1' u3
    by (simp add: table_eval emit_eval miss_orgdf_def orgpred_def Let_def)
  note t = vocab_miss_isolated [where prd = county_prd and env = county_globals and d = ?d
      and cell = "''Atlantis''", OF a b c]
  note t1 = t [where subj = "URIRef ''s''" and lbl = "''Audubon''" and obj = None and st = g0
      and cellval = "''Atlantis, Yolo''" and v = "''Atlantis, Yolo''" and subjval = "''s''"]
  note t2 = t [where cellval = "''Atlantis, Yolo''" and v = "''Atlantis, Yolo''"
      and df = miss_orgdf and r = 0 and c = 1 and schema = orgpred and name = "''Audubon California''"
      and cls = "''Organizations''" and clsuri = ?uri and pfx = "''org_''" and type_first = True
      and st = g0 and s = g0 and ?s1.0 = ?s1 and ?s2.0 = ?s2]
  have p: "print_line (''Audubon'' @ '': '' @ ''Atlantis'' @ '' not in '' @ pr3 county_prd) g0 =
        \<lparr>graph = [], printed = [''Audubon: Atlantis not in countydict'']\<rparr>"
    by (simp add: print_line_def g0_def county_prd_def pr_simps)
  from t1 have 1: "cell_body county_globals county_prd (URIRef ''s'') ''Audubon'' None g0 ''Atlantis'' =
       Inr (None, \<lparr>graph = [], printed = [''Audubon: Atlantis not in countydict'']\<rparr>)"
    by (simp only: p)
  from t1 e mem have "addtriple county_globals g0 county_prd ''s'' ''Atlantis, Yolo'' ''Audubon'' =
       Inr (vocab_adds g0 (URIRef ''s'') ''Audubon'' county_prd ?d
              (celllist county_prd ''Atlantis, Yolo''))"
    by blast
  then have 2: "addtriple county_globals g0 county_prd ''s'' ''Atlantis, Yolo'' ''Audubon'' =
       Inr \<lparr>graph = [(URIRef ''s'', URIRef (pr1 county_prd),
                       URIRef ''http://example.org/county/Yolo'')],
            printed = [''Audubon: Atlantis not in countydict'']\<rparr>"
    unfolding l
    by (simp add: vocab_adds_def vocab_triples_def vocab_lines_def county_prd_def pr_simps g0_def)
  from t2 e mem i ne m sh n cl rows before after
  have "entity_rows county_globals orgpred ''org_'' ''Organizations'' True miss_orgdf g0 =
        for_each (entity_row county_globals orgpred ''org_'' ''Organizations'' True miss_orgdf)
          [Suc 0..<shape0 miss_orgdf] ?s2"
    by blast
  moreover have "[Suc 0..<shape0 miss_orgdf] = [1]"
    by (simp add: shape0_def miss_orgdf_def upt_rec)
  ultimately have "organizations county_globals miss_orgdf g0 =
        for_each (entity_row county_globals orgpred ''org_'' ''Organizations'' True miss_orgdf)
          [1] ?s2"
    by (simp add: organizations_def)
  also have "\<dots> = Inr \<lparr>graph =
              [type_triple ?S ?uri, label_triple ?S ''Audubon California'',
               (URIRef ?S, URIRef ''http://purl.org/dc/terms/title'', Literal ''Audubon California''),
               (URIRef ?S, URIRef (pr1 county_prd), URIRef ''http://example.org/county/Yolo''),
               (URIRef ?S, URIRef ''http://www.w3.org/2004/02/skos/core#altLabel'',
                Literal ''Audubon''),
               type_triple ?N ?uri, label_triple ?N ''Napa Land Trust'',
               (URIRef ?N, URIRef ''http://purl.org/dc/terms/title'', Literal ''Napa Land Trust''),
               (URIRef ?N, URIRef (pr1 county_prd), URIRef ''http://example.org/county/Napa'')],
            printed = [?line]\<rparr>"
    by (simp add: table_eval emit_eval strip_eval miss_orgdf_def orgpred_def PPODrefs_def
        county_globals_def county_prd_def Let_def)
  finally have 3: "organizations county_globals miss_orgdf g0 = Inr \<lparr>graph =
              [type_triple ?S ?uri, label_triple ?S ''Audubon California'',
               (URIRef ?S, URIRef ''http://purl.org/dc/terms/title'', Literal ''Audubon California''),
               (URIRef ?S, URIRef (pr1 county_prd), URIRef ''http://example.org/county/Yolo''),
               (URIRef ?S, URIRef ''http://www.w3.org/2004/02/skos/core#altLabel'',
                Literal ''Audubon''),
               type_triple ?N ?uri, label_triple ?N ''Napa Land Trust'',
               (URIRef ?N, URIRef ''http://purl.org/dc/terms/title'', Literal ''Napa Land Trust''),
               (URIRef ?N, URIRef (pr1 county_prd), URIRef ''http://example.org/county/Napa'')],
            printed = [?line]\<rparr>" .
  from a b c l 1 2 3 show ?thesis by blast
qed

subsection \<open>The cell \<^verbatim>\<open>All\<close>\<close>

text \<open>
  C7, as corrected. For a tuple whose fourth place is \<^verbatim>\<open>countydict\<close> or
  \<^verbatim>\<open>ecoregiondict\<close>, the cell \<^verbatim>\<open>All\<close> is replaced by the keys of that dictionary, as it is
  when \<open>addtriple\<close> runs, joined with commas, before the cell is split and its values are
  processed. The values processed are exactly the keys, in the order of the dictionary,
  when the tuple has multiplicity \<^verbatim>\<open>m\<close>, the dictionary is not empty and no key contains a
  comma or starts or ends with whitespace.
\<close>

theorem all_expansion:
  assumes "pr3 prd = ''countydict'' \<or> pr3 prd = ''ecoregiondict''"
    and "env (pr3 prd) = Some d"
  shows "expand_all env prd ''All'' = Inr (join '','' (keys d))
       \<and> addtriple env st prd subjval ''All'' lbl =
           cells_loop env prd (URIRef subjval) lbl None st (celllist prd (join '','' (keys d)))
       \<and> (pr4 prd = ''m'' \<and> d \<noteq> [] \<and> (\<forall>k\<in>set (keys d). CHR '','' \<notin> set k \<and> strip k = k)
            \<longrightarrow> celllist prd (join '','' (keys d)) = keys d)"
proof -
  have e: "expand_all env prd ''All'' = Inr (join '','' (keys d))"
    using assms by (auto simp: expand_all_def)
  have a: "addtriple env st prd subjval ''All'' lbl =
           cells_loop env prd (URIRef subjval) lbl None st (celllist prd (join '','' (keys d)))"
    by (simp add: addtriple_def e)
  have c: "pr4 prd = ''m'' \<and> d \<noteq> [] \<and> (\<forall>k\<in>set (keys d). CHR '','' \<notin> set k \<and> strip k = k)
            \<longrightarrow> celllist prd (join '','' (keys d)) = keys d"
  proof
    assume h: "pr4 prd = ''m'' \<and> d \<noteq> [] \<and> (\<forall>k\<in>set (keys d). CHR '','' \<notin> set k \<and> strip k = k)"
    then have "keys d \<noteq> []" by (simp add: keys_def)
    moreover from h have "\<forall>k\<in>set (keys d). CHR '','' \<notin> set k" by blast
    ultimately have "split_comma (join '','' (keys d)) = keys d" by (rule split_comma_join)
    moreover from h have "map strip (keys d) = keys d" by (simp add: map_idI)
    ultimately show "celllist prd (join '','' (keys d)) = keys d"
      using h by (simp add: celllist_def)
  qed
  from e a c show ?thesis by blast
qed

text \<open>The cell \<^verbatim>\<open>All\<close> of a county column, with two counties in the dictionary.\<close>

theorem all_expansion_witness:
  "(pr3 county_prd = ''countydict'' \<or> pr3 county_prd = ''ecoregiondict'')
   \<and> county_globals (pr3 county_prd) =
       Some [(''Yolo'', ''http://example.org/county/Yolo''),
             (''Napa'', ''http://example.org/county/Napa'')]
   \<and> expand_all county_globals county_prd ''All'' = Inr ''Yolo,Napa''
   \<and> celllist county_prd ''Yolo,Napa'' = [''Yolo'', ''Napa'']
   \<and> addtriple county_globals g0 county_prd ''s'' ''All'' ''Audubon'' =
       Inr \<lparr>graph = [(URIRef ''s'', URIRef (pr1 county_prd), URIRef ''http://example.org/county/Yolo''),
                      (URIRef ''s'', URIRef (pr1 county_prd), URIRef ''http://example.org/county/Napa'')],
            printed = []\<rparr>"
proof -
  let ?d = "[(''Yolo'', ''http://example.org/county/Yolo''),
             (''Napa'', ''http://example.org/county/Napa'')]"
  have a: "pr3 county_prd = ''countydict'' \<or> pr3 county_prd = ''ecoregiondict''"
    by (simp add: county_prd_def pr_simps)
  have b: "county_globals (pr3 county_prd) = Some ?d"
    by (simp add: county_prd_def pr_simps county_globals_def)
  note t = all_expansion [where prd = county_prd and env = county_globals and d = ?d
      and st = g0 and subjval = "''s''" and lbl = "''Audubon''", OF a b]
  have j: "join '','' (keys ?d) = ''Yolo,Napa''" by (simp add: keys_def)
  have m: "pr4 county_prd = ''m'' \<and> ?d \<noteq> []
           \<and> (\<forall>k\<in>set (keys ?d). CHR '','' \<notin> set k \<and> strip k = k)"
    by (simp add: county_prd_def pr_simps keys_def strip_eval)
  from t m have l: "celllist county_prd (join '','' (keys ?d)) = keys ?d" by blast
  then have l': "celllist county_prd ''Yolo,Napa'' = [''Yolo'', ''Napa'']"
    unfolding j by (simp add: keys_def)
  from t have e: "expand_all county_globals county_prd ''All'' = Inr ''Yolo,Napa''"
    unfolding j by blast
  from t have "addtriple county_globals g0 county_prd ''s'' ''All'' ''Audubon'' =
           cells_loop county_globals county_prd (URIRef ''s'') ''Audubon'' None g0
             (celllist county_prd ''Yolo,Napa'')"
    unfolding j by blast
  then have r: "addtriple county_globals g0 county_prd ''s'' ''All'' ''Audubon'' =
       Inr \<lparr>graph = [(URIRef ''s'', URIRef (pr1 county_prd), URIRef ''http://example.org/county/Yolo''),
                      (URIRef ''s'', URIRef (pr1 county_prd), URIRef ''http://example.org/county/Napa'')],
            printed = []\<rparr>"
    unfolding l' by (simp add: cell_body_def county_prd_def pr_simps county_globals_def g_add_def g0_def)
  from a b e l' r show ?thesis by blast
qed

text \<open>
  Against C7 as stated: with the one key \<^verbatim>\<open>A,B\<close> in the county dictionary the cell
  \<^verbatim>\<open>All\<close> is processed as the two values \<^verbatim>\<open>A\<close> and \<^verbatim>\<open>B\<close>, neither of them a key, and no
  triple is added; with no key at all it is processed as the one empty value.
\<close>

theorem all_expansion_counterexample:
  "comma_globals ''countydict'' = Some [(''A,B'', ''http://example.org/county/AB'')]
   \<and> keys [(''A,B'', ''http://example.org/county/AB'')] = [''A,B'']
   \<and> expand_all comma_globals county_prd ''All'' = Inr ''A,B''
   \<and> celllist county_prd ''A,B'' = [''A'', ''B'']
   \<and> addtriple comma_globals g0 county_prd ''s'' ''All'' ''Audubon'' =
       Inr \<lparr>graph = [],
            printed = [''Audubon: A not in countydict'', ''Audubon: B not in countydict'']\<rparr>
   \<and> empty_county_globals ''countydict'' = Some []
   \<and> addtriple empty_county_globals g0 county_prd ''s'' ''All'' ''Audubon'' =
       Inr \<lparr>graph = [], printed = [''Audubon:  not in countydict'']\<rparr>"
  by (simp add: comma_globals_def empty_county_globals_def keys_def expand_all_def celllist_def
      addtriple_def cell_body_def county_prd_def pr_simps strip_eval g0_def print_line_def)

subsection \<open>Multiplicity\<close>







subsection \<open>Use-case columns whose cell is not the flag\<close>

lemma cell_body_unbound:
  assumes "pr0 prd = ''d''" and "contains ''usecase'' (pr1 prd)"
    and "cell \<noteq> ''X''" and "cell \<noteq> ''x''"
  shows "cell_body env prd subj lbl None st cell = Inl (NameError, st)"
  using assms by (simp add: cell_body_def)

lemma addtriple_unbound:
  assumes "pr0 prd = ''d''" and "contains ''usecase'' (pr1 prd)"
    and "expand_all env prd cellval = Inr v"
    and "hd (celllist prd v) \<noteq> ''X''" and "hd (celllist prd v) \<noteq> ''x''"
  shows "addtriple env st prd subjval cellval lbl = Inl (NameError, st)"
proof -
  have "celllist prd v \<noteq> []" by (simp add: celllist_def)
  then obtain c cs where l: "celllist prd v = c # cs" by (cases "celllist prd v") auto
  with assms(4,5) have "c \<noteq> ''X''" "c \<noteq> ''x''" by simp_all
  then have "cell_body env prd (URIRef subjval) lbl None st c = Inl (NameError, st)"
    using assms(1,2) by (simp add: cell_body_unbound)
  then show ?thesis using assms(3) l by (simp add: addtriple_def)
qed

lemma addtriple_unbound_single:
  assumes "pr0 prd = ''d''" and "contains ''usecase'' (pr1 prd)"
    and "pr4 prd \<noteq> ''m''"
    and "pr3 prd \<noteq> ''countydict''" and "pr3 prd \<noteq> ''ecoregiondict''"
    and "cellval \<noteq> ''X''" and "cellval \<noteq> ''x''"
  shows "addtriple env st prd subjval cellval lbl = Inl (NameError, st)"
proof -
  have e: "expand_all env prd cellval = Inr cellval"
    using assms(4,5) by (simp add: expand_all_def)
  have l: "celllist prd cellval = [cellval]"
    using assms(3) by (simp add: celllist_def)
  show ?thesis
    by (rule addtriple_unbound [OF assms(1,2) e]) (simp_all add: l assms(6,7))
qed

text \<open>Every use-case column of the sheets is declared single, with no dictionary.\<close>

lemma usecase_columns_single:
  "\<forall>preds\<in>set predicate_dicts. \<forall>(col, prd)\<in>set preds.
     pr0 prd = ''d'' \<and> contains ''usecase'' (pr1 prd) \<longrightarrow> pr4 prd = ''s'' \<and> pr3 prd = ''''"
  by (simp add: predicate_dicts_def orgpred_def projpred_def progpred_def personpred_def
      personorgpred_def personprojpred_def personprogrampred_def guidelinespred_def
      orgprojgmpred_def datasetpred_def toolpred_def pr_simps)

text \<open>The run of the ingestion pass on a workbook whose only row has \<^verbatim>\<open>yes\<close> under a use case.\<close>

lemma ingest_flagged:
  "ingest env flagged_tables g0 =
     Inl (NameError,
       \<lparr>graph = [(URIRef (auxprefix @ ''org_'' @ makeid ''Audubon California''),
                  URIRef (rdfuri @ ''type''), URIRef ''http://xmlns.com/foaf/0.1/Organization''),
                 (URIRef (auxprefix @ ''org_'' @ makeid ''Audubon California''),
                  URIRef (rdfsuri @ ''label''), Literal ''Audubon California''),
                 (URIRef (auxprefix @ ''org_'' @ makeid ''Audubon California''),
                  URIRef ''http://purl.org/dc/terms/title'', Literal ''Audubon California'')],
        printed = []\<rparr>)"
  by (simp add: ingest_def flagged_tables_def flagged_orgdf_def organizations_def table_eval
      emit_eval PPODrefs_def orgpred_def g0_def Let_def)


text \<open>
  C10, as corrected. The claim has the call fail for every cell other than \<^verbatim>\<open>X\<close> and
  \<^verbatim>\<open>x\<close>. What fails is a value other than the flag that comes first: for a \<^verbatim>\<open>d\<close> tuple
  whose URI contains \<^verbatim>\<open>usecase\<close>, when the first value of the cell is neither \<^verbatim>\<open>X\<close> nor
  \<^verbatim>\<open>x\<close>, \<^verbatim>\<open>obj\<close> has not been assigned when the triple is added and \<open>addtriple\<close> raises
  \<open>NameError\<close> with nothing added, instead of adding the literal. Every use-case column of
  the predicate dictionaries is declared single, so for them every cell other than \<^verbatim>\<open>X\<close>
  and \<^verbatim>\<open>x\<close> raises. The branch is reached from the ingestion pass: an organizations sheet
  with \<^verbatim>\<open>yes\<close> under \<^verbatim>\<open>usecaseMeat\<close> ends the run with \<open>NameError\<close>.
\<close>

theorem usecase_unbound_obj:
  "(pr0 prd = ''d'' \<and> contains ''usecase'' (pr1 prd) \<and> expand_all env prd cellval = Inr v
      \<and> hd (celllist prd v) \<noteq> ''X'' \<and> hd (celllist prd v) \<noteq> ''x''
    \<longrightarrow> addtriple env st prd subjval cellval lbl = Inl (NameError, st))
   \<and> (\<forall>preds\<in>set predicate_dicts. \<forall>(col, p)\<in>set preds.
         pr0 p = ''d'' \<and> contains ''usecase'' (pr1 p) \<and> cellval \<noteq> ''X'' \<and> cellval \<noteq> ''x''
         \<longrightarrow> addtriple env st p subjval cellval lbl = Inl (NameError, st))
   \<and> raised (ingest env flagged_tables g0) = Some NameError"
proof -
  have 1: "pr0 prd = ''d'' \<and> contains ''usecase'' (pr1 prd) \<and> expand_all env prd cellval = Inr v
      \<and> hd (celllist prd v) \<noteq> ''X'' \<and> hd (celllist prd v) \<noteq> ''x''
    \<longrightarrow> addtriple env st prd subjval cellval lbl = Inl (NameError, st)"
    using addtriple_unbound by blast
  have 2: "\<forall>preds\<in>set predicate_dicts. \<forall>(col, p)\<in>set preds.
         pr0 p = ''d'' \<and> contains ''usecase'' (pr1 p) \<and> cellval \<noteq> ''X'' \<and> cellval \<noteq> ''x''
         \<longrightarrow> addtriple env st p subjval cellval lbl = Inl (NameError, st)"
  proof (intro ballI, clarify)
    fix preds col p
    assume in1: "preds \<in> set predicate_dicts" and in2: "(col, p) \<in> set preds"
      and d: "pr0 p = ''d''" and u: "contains ''usecase'' (pr1 p)"
      and x: "cellval \<noteq> ''X''" "cellval \<noteq> ''x''"
    from usecase_columns_single in1 in2 d u have "pr4 p = ''s'' \<and> pr3 p = ''''" by blast
    then have "pr4 p \<noteq> ''m''" "pr3 p \<noteq> ''countydict''" "pr3 p \<noteq> ''ecoregiondict''"
      by simp_all
    with d u x show "addtriple env st p subjval cellval lbl = Inl (NameError, st)"
      by (simp add: addtriple_unbound_single)
  qed
  have 3: "raised (ingest env flagged_tables g0) = Some NameError"
    by (simp add: ingest_flagged raised_def)
  from 1 2 3 show ?thesis by blast
qed

text \<open>The cell \<^verbatim>\<open>yes\<close> under \<^verbatim>\<open>usecaseMeat\<close>, in \<open>addtriple\<close> and in the ingestion pass.\<close>

theorem usecase_unbound_obj_witness:
  "pr0 usecase_prd = ''d'' \<and> contains ''usecase'' (pr1 usecase_prd)
   \<and> expand_all no_globals usecase_prd ''yes'' = Inr ''yes''
   \<and> hd (celllist usecase_prd ''yes'') = ''yes''
   \<and> orgpred \<in> set predicate_dicts \<and> (''usecaseMeat'', usecase_prd) \<in> set orgpred
   \<and> addtriple no_globals g0 usecase_prd ''s'' ''yes'' ''l'' = Inl (NameError, g0)
   \<and> raised (ingest no_globals flagged_tables g0) = Some NameError"
proof -
  note t = usecase_unbound_obj [where prd = usecase_prd and env = no_globals
      and cellval = "''yes''" and v = "''yes''" and st = g0 and subjval = "''s''" and lbl = "''l''"]
  have a: "pr0 usecase_prd = ''d''" by (simp add: usecase_prd_def pr_simps)
  have b: "contains ''usecase'' (pr1 usecase_prd)" by (simp add: usecase_prd_def pr_simps)
  have e: "expand_all no_globals usecase_prd ''yes'' = Inr ''yes''" by (simp add: expand_all_def)
  have h: "hd (celllist usecase_prd ''yes'') = ''yes''"
    by (simp add: celllist_def usecase_prd_def pr_simps)
  have i: "orgpred \<in> set predicate_dicts" by (simp add: predicate_dicts_def)
  have j: "(''usecaseMeat'', usecase_prd) \<in> set orgpred"
    by (simp add: orgpred_def usecase_prd_def)
  from t a b e h have r: "addtriple no_globals g0 usecase_prd ''s'' ''yes'' ''l'' = Inl (NameError, g0)"
    by simp
  from t have s: "raised (ingest no_globals flagged_tables g0) = Some NameError" by blast
  from a b e h i j r s show ?thesis by blast
qed

text \<open>
  Against C10 as stated: with multiplicity \<^verbatim>\<open>m\<close> the cell \<^verbatim>\<open>X, no\<close> is other than \<^verbatim>\<open>X\<close>
  and \<^verbatim>\<open>x\<close>, and so is its second value, yet the call returns normally: the value
  \<^verbatim>\<open>no\<close> is added with the object that \<^verbatim>\<open>X\<close> left in \<^verbatim>\<open>obj\<close>.
\<close>

theorem usecase_unbound_obj_counterexample:
  "pr0 usecase_multi_prd = ''d'' \<and> contains ''usecase'' (pr1 usecase_multi_prd)
   \<and> celllist usecase_multi_prd ''X, no'' = [''X'', ''no'']
   \<and> addtriple no_globals g0 usecase_multi_prd ''s'' ''X, no'' ''l'' =
       Inr \<lparr>graph =
              [(URIRef ''s'',
                URIRef ''https://raw.githubusercontent.com/adhollander/FSLschemas/main/fsisupp.owl#usecase'',
                URIRef ''https://raw.githubusercontent.com/adhollander/FSLschemas/main/fsisupp.owl#usecaseMeat''),
               (URIRef ''s'',
                URIRef ''https://raw.githubusercontent.com/adhollander/FSLschemas/main/fsisupp.owl#usecaseMeat'',
                URIRef ''https://raw.githubusercontent.com/adhollander/FSLschemas/main/fsisupp.owl#usecaseMeat'')],
            printed = []\<rparr>"
  by (simp add: usecase_multi_prd_def emit_eval strip_eval g0_def fslsprefix_def)

section \<open>Relation tables\<close>

lemma orggm_row_unknown:
  assumes "iloc df r 0 = Inr org" and "iloc df r 1 = Inr rel" and "map_of orggmpred rel = None"
  shows "orggm_row df r st = Inl (KeyError, st)"
  using assms by (simp add: orggm_row_def reading_def Let_def)

text \<open>
  C9, as corrected. The claim has the row reported and skipped and the table ingested
  further. The lookup \<^verbatim>\<open>orggmpred[...]\<close> has no handler: for a row of the
  organization-guideline sheet whose second cell is not a key of \<open>orggmpred\<close>, the row
  raises \<open>KeyError\<close> before adding a triple or printing a line, and the loop ends there:
  the rows before it have been ingested, the rows after it are not. Nothing in the
  ingestion pass catches the error: when the statements before the loop have run, the pass
  ends with \<open>KeyError\<close> in the state the rows before had reached, and the statements after
  the loop are not run.
\<close>

theorem orggm_unknown_relation:
  assumes "iloc df r 0 = Inr org" and "iloc df r 1 = Inr rel" and "map_of orggmpred rel = None"
  shows "orggm_row df r st = Inl (KeyError, st)
       \<and> for_each (orggm_row df) (r # later) st = Inl (KeyError, st)
       \<and> (for_each (orggm_row df) before st = Inr st1 \<longrightarrow>
            for_each (orggm_row df) (before @ r # later) st = Inl (KeyError, st1))
       \<and> (r < shape0 df \<and> for_each (orggm_row df) [0..<r] st = Inr st1 \<longrightarrow>
            orggms df st = Inl (KeyError, st1))
       \<and> (orggmdf t = df \<and> r < shape0 df
            \<and> for_each (\<lambda>statement. statement)
                 [organizations env (orgdf t),
                  programs env (progdf t),
                  projects env (projdf t),
                  people env (peopledf t),
                  role_label,
                  peopleorgs env (peopleorgdf t),
                  peopleprojs env (peopleprojdf t),
                  peopleprograms env (peopleorgdf t) (peopleprogramdf t),
                  guidelines env (guidelinesdf t)] st0 = Inr st
            \<and> for_each (orggm_row df) [0..<r] st = Inr st1 \<longrightarrow>
            ingest env t st0 = Inl (KeyError, st1)
          \<and> raised (ingest env t st0) = Some KeyError
          \<and> final (ingest env t st0) = st1)"
proof -
  have row: "\<And>s. orggm_row df r s = Inl (KeyError, s)"
    using assms by (rule orggm_row_unknown)
  then have 1: "for_each (orggm_row df) (r # later) st = Inl (KeyError, st)" by simp
  have 2: "for_each (orggm_row df) before st = Inr st1 \<longrightarrow>
            for_each (orggm_row df) (before @ r # later) st = Inl (KeyError, st1)"
    by (simp add: for_each_append row)
  have 3: "r < shape0 df \<and> for_each (orggm_row df) [0..<r] st = Inr st1 \<longrightarrow>
            orggms df st = Inl (KeyError, st1)"
  proof
    assume h: "r < shape0 df \<and> for_each (orggm_row df) [0..<r] st = Inr st1"
    then have "[0..<shape0 df] = [0..<r] @ r # [Suc r..<shape0 df]" by (simp add: upt_split)
    with h show "orggms df st = Inl (KeyError, st1)"
      by (simp add: orggms_def for_each_append row)
  qed
  have 4: "orggmdf t = df \<and> r < shape0 df
            \<and> for_each (\<lambda>statement. statement)
                 [organizations env (orgdf t),
                  programs env (progdf t),
                  projects env (projdf t),
                  people env (peopledf t),
                  role_label,
                  peopleorgs env (peopleorgdf t),
                  peopleprojs env (peopleprojdf t),
                  peopleprograms env (peopleorgdf t) (peopleprogramdf t),
                  guidelines env (guidelinesdf t)] st0 = Inr st
            \<and> for_each (orggm_row df) [0..<r] st = Inr st1 \<longrightarrow>
            ingest env t st0 = Inl (KeyError, st1)
          \<and> raised (ingest env t st0) = Some KeyError
          \<and> final (ingest env t st0) = st1"
  proof
    assume h: "orggmdf t = df \<and> r < shape0 df
            \<and> for_each (\<lambda>statement. statement)
                 [organizations env (orgdf t),
                  programs env (progdf t),
                  projects env (projdf t),
                  people env (peopledf t),
                  role_label,
                  peopleorgs env (peopleorgdf t),
                  peopleprojs env (peopleprojdf t),
                  peopleprograms env (peopleorgdf t) (peopleprogramdf t),
                  guidelines env (guidelinesdf t)] st0 = Inr st
            \<and> for_each (orggm_row df) [0..<r] st = Inr st1"
    with 3 have o: "orggms (orggmdf t) st = Inl (KeyError, st1)" by simp
    have "ingest env t st0 =
          for_each (\<lambda>statement. statement)
            ([organizations env (orgdf t),
              programs env (progdf t),
              projects env (projdf t),
              people env (peopledf t),
              role_label,
              peopleorgs env (peopleorgdf t),
              peopleprojs env (peopleprojdf t),
              peopleprograms env (peopleorgdf t) (peopleprogramdf t),
              guidelines env (guidelinesdf t)]
             @ [orggms (orggmdf t),
                orgprojgms env (orgprojgmdf t),
                datasets env (datasetdf t),
                tools env (tooldf t)]) st0"
      by (simp add: ingest_def)
    also have "\<dots> = Inl (KeyError, st1)"
      using h o by (simp only: for_each_append) simp
    finally have "ingest env t st0 = Inl (KeyError, st1)" .
    then show "ingest env t st0 = Inl (KeyError, st1)
          \<and> raised (ingest env t st0) = Some KeyError
          \<and> final (ingest env t st0) = st1"
      by (simp add: raised_def)
  qed
  from row 1 2 3 4 show ?thesis by blast
qed

text \<open>
  A sheet whose first row has the relation \<^verbatim>\<open>Ignores\<close>, alone in the workbook: the pass
  ends with the label of the role class as its only triple.
\<close>

theorem orggm_unknown_relation_witness:
  "iloc bad_orggmdf 0 0 = Inr ''Audubon California''
   \<and> iloc bad_orggmdf 0 1 = Inr ''Ignores''
   \<and> map_of orggmpred ''Ignores'' = None
   \<and> orggm_row bad_orggmdf 0 g0 = Inl (KeyError, g0)
   \<and> for_each (orggm_row bad_orggmdf) [0, 1] g0 = Inl (KeyError, g0)
   \<and> 0 < shape0 bad_orggmdf
   \<and> orggms bad_orggmdf g0 = Inl (KeyError, g0)
   \<and> orggmdf bad_tables = bad_orggmdf
   \<and> ingest no_globals bad_tables g0 =
       Inl (KeyError,
         \<lparr>graph = [(URIRef role_class, URIRef (rdfsuri @ ''label''), Literal ''Role'')],
          printed = []\<rparr>)"
proof -
  let ?st = "\<lparr>graph = [(URIRef role_class, URIRef (rdfsuri @ ''label''), Literal ''Role'')],
              printed = []\<rparr>"
  have a: "iloc bad_orggmdf 0 0 = Inr ''Audubon California''"
    by (simp add: iloc_def shape0_def shape1_def bad_orggmdf_def)
  have b: "iloc bad_orggmdf 0 1 = Inr ''Ignores''"
    by (simp add: iloc_def shape0_def shape1_def bad_orggmdf_def)
  have c: "map_of orggmpred ''Ignores'' = None"
    by (simp add: orggmpred_def)
  have s: "0 < shape0 bad_orggmdf" by (simp add: shape0_def bad_orggmdf_def)
  have o: "orggmdf bad_tables = bad_orggmdf" by (simp add: bad_tables_def)
  have e: "\<And>x. for_each (orggm_row bad_orggmdf) [0..<0] x = Inr x" by simp
  have p: "for_each (\<lambda>statement. statement)
                 [organizations no_globals (orgdf bad_tables),
                  programs no_globals (progdf bad_tables),
                  projects no_globals (projdf bad_tables),
                  people no_globals (peopledf bad_tables),
                  role_label,
                  peopleorgs no_globals (peopleorgdf bad_tables),
                  peopleprojs no_globals (peopleprojdf bad_tables),
                  peopleprograms no_globals (peopleorgdf bad_tables) (peopleprogramdf bad_tables),
                  guidelines no_globals (guidelinesdf bad_tables)] g0 = Inr ?st"
    by (simp add: bad_tables_def empty_df_def organizations_def programs_def projects_def
        people_def guidelines_def peopleorgs_def peopleprojs_def peopleprograms_def
        entity_rows_def role_label_def shape0_def g_add_def g0_def)
  note t1 = orggm_unknown_relation [OF a b c, where st = g0 and later = "[1]" and ?st1.0 = g0]
  note t2 = orggm_unknown_relation [OF a b c, where st = ?st and ?st1.0 = ?st
      and t = bad_tables and env = no_globals and ?st0.0 = g0]
  from t1 have 1: "orggm_row bad_orggmdf 0 g0 = Inl (KeyError, g0)"
    and 2: "for_each (orggm_row bad_orggmdf) [0, 1] g0 = Inl (KeyError, g0)" by blast+
  from t1 s e have 3: "orggms bad_orggmdf g0 = Inl (KeyError, g0)" by blast
  from t2 o s p e have 4: "ingest no_globals bad_tables g0 = Inl (KeyError, ?st)" by blast
  from a b c 1 2 s 3 o 4 show ?thesis by blast
qed

text \<open>
  Against C9 as stated: the second row of the sheet is a good one (alone it adds its
  triple), and after the first row it is not ingested; nothing is printed.
\<close>

theorem orggm_unknown_relation_counterexample:
  "orggms bad_orggmdf g0 = Inl (KeyError, \<lparr>graph = [], printed = []\<rparr>)
   \<and> orggms good_orggmdf g0 =
       Inr \<lparr>graph = [(URIRef (auxprefix @ ''org_'' @ makeid ''Audubon California''),
                       URIRef ''https://w3id.org/dingo#implements'',
                       URIRef (auxprefix @ ''gmt_'' @ makeid ''Clean Water Act''))],
            printed = []\<rparr>"
  by (simp add: orggms_def orggm_row_def table_eval bad_orggmdf_def good_orggmdf_def orggmpred_def
      g0_def g_add_def Let_def)

text \<open>
  C4, a defect of the code. A person-organization row with both role columns empty: the
  role text that is hashed is person and organization with nothing after them, and the
  label added is the empty literal; \<^verbatim>\<open>Unstated role\<close> is put in only afterwards, inside the
  loop over the columns, and reaches the title triple alone. (The person-project loop
  puts its default in before it hashes and labels.)
\<close>

theorem peopleorg_default_after_label:
  "peopleorgs no_globals norole_peopleorgdf g0 =
     Inr \<lparr>graph =
            [(URIRef (auxprefix @ ''rol_'' @ makeid ''Ann LeeAudubon California''),
              URIRef (rdfsuri @ ''label''), Literal ''''),
             (URIRef (auxprefix @ ''rol_'' @ makeid ''Ann LeeAudubon California''),
              URIRef (rdfuri @ ''type''), URIRef ''http://purl.obolibrary.org/obo/BFO_0000023''),
             (URIRef (auxprefix @ ''rol_'' @ makeid ''Ann LeeAudubon California''),
              URIRef ''http://purl.obolibrary.org/obo/RO_0000057'',
              URIRef (auxprefix @ ''per_'' @ makeid ''Ann Lee'')),
             (URIRef (auxprefix @ ''rol_'' @ makeid ''Ann LeeAudubon California''),
              URIRef ''http://purl.obolibrary.org/obo/RO_0000081'',
              URIRef (auxprefix @ ''org_'' @ makeid ''Audubon California'')),
             (URIRef (auxprefix @ ''rol_'' @ makeid ''Ann LeeAudubon California''),
              URIRef ''http://purl.org/dc/terms/title'', Literal ''Unstated role'')],
          printed = [''empty string'']\<rparr>"
  by (simp add: peopleorgs_def peopleorg_row_def peopleorg_column_def debug_print_def table_eval
      emit_eval norole_peopleorgdf_def personorgpred_def role_class_def g0_def Let_def)

text \<open>
  C5, a defect of the code. The person-program loop reads the role text and the label
  from the person-organization sheet, at the row of the same number: with Ann Lee,
  director at Audubon California, in the one and Bo Diaz, advisor to Healthy Soils, in the
  other, the role node of the person-program row is hashed from Ann Lee's row and
  labelled \<^verbatim>\<open>Director\<close>. When the person-organization sheet has no such row the loop
  raises \<open>IndexError\<close>.
\<close>

theorem peopleprogram_reads_peopleorg:
  "peopleprograms no_globals one_peopleorgdf one_peopleprogramdf g0 =
     Inr \<lparr>graph =
            [(URIRef (auxprefix @ ''rol_'' @ makeid ''Ann LeeAudubon CaliforniaDirector''),
              URIRef (rdfsuri @ ''label''), Literal ''Director''),
             (URIRef (auxprefix @ ''rol_'' @ makeid ''Ann LeeAudubon CaliforniaDirector''),
              URIRef (rdfuri @ ''type''), URIRef ''http://purl.obolibrary.org/obo/BFO_0000023''),
             (URIRef (auxprefix @ ''rol_'' @ makeid ''Ann LeeAudubon CaliforniaDirector''),
              URIRef ''http://purl.obolibrary.org/obo/RO_0000057'',
              URIRef (auxprefix @ ''per_'' @ makeid ''Bo Diaz'')),
             (URIRef (auxprefix @ ''rol_'' @ makeid ''Ann LeeAudubon CaliforniaDirector''),
              URIRef ''http://purl.obolibrary.org/obo/RO_0002331'',
              URIRef (auxprefix @ ''prg_'' @ makeid ''Healthy Soils'')),
             (URIRef (auxprefix @ ''rol_'' @ makeid ''Ann LeeAudubon CaliforniaDirector''),
              URIRef ''http://purl.obolibrary.org/obo/RO_0000087'', Literal ''Advisor'')],
          printed = []\<rparr>
   \<and> peopleprograms no_globals empty_df one_peopleprogramdf g0 = Inl (IndexError, g0)"
  by (simp add: peopleprograms_def peopleprogram_row_def table_eval emit_eval
      one_peopleorgdf_def one_peopleprogramdf_def empty_df_def personprogrampred_def
      role_class_def g0_def Let_def)

end
